theory Spec2Isabelle
  imports Main "HOL-Library.Sublist"
begin

section \<open>Python values seen by the handler\<close>

text \<open>
  The request body of \<^verbatim>\<open>POST /invocations\<close> is decoded by \<^verbatim>\<open>json.loads\<close>; the
  values it can yield are the JSON values. A Python \<^verbatim>\<open>dict\<close> is kept as the list of
  its items (keys unique, looked up with \<open>map_of\<close>); a Python \<^verbatim>\<open>str\<close> is a
  \<open>string\<close>. The handler only ever asks of a float whether it is zero, so a float is a
  mantissa and a binary exponent, or one of the three special values.
\<close>

datatype pyfloat = Finite int int | Infinity bool | NaN

datatype json =
    JNull
  | JBool bool
  | JInt int
  | JFloat pyfloat
  | JStr string
  | JArr "json list"
  | JObj "(string \<times> json) list"

text \<open>
  Exceptions are values. The first four classes are raised by the code of \<^verbatim>\<open>serve.py\<close>
  itself (or by the built-in operations it applies); \<open>LibraryError cls msg\<close> is an
  exception of class \<open>cls\<close> raised inside a library call (S3 transfer, operating system,
  subprocess, JSON decoding). All of them are subclasses of \<^verbatim>\<open>Exception\<close>.
\<close>

datatype exn =
    AttributeError string
  | IndexError string
  | TypeError string
  | RuntimeError string
  | LibraryError string string

fun str_exn :: "exn \<Rightarrow> string" where
  "str_exn (AttributeError m) = m"
| "str_exn (IndexError m) = m"
| "str_exn (TypeError m) = m"
| "str_exn (RuntimeError m) = m"
| "str_exn (LibraryError c m) = m"

abbreviation newline :: string where
  "newline \<equiv> [CHR 0x0A]"

fun float_is_zero :: "pyfloat \<Rightarrow> bool" where
  "float_is_zero (Finite m e) = (m = 0)"
| "float_is_zero (Infinity s) = False"
| "float_is_zero NaN = False"

text \<open>Python's \<^verbatim>\<open>not v\<close>: true exactly on the falsy values.\<close>

fun py_not :: "json \<Rightarrow> bool" where
  "py_not JNull = True"
| "py_not (JBool b) = (b = False)"
| "py_not (JInt n) = (n = 0)"
| "py_not (JFloat x) = float_is_zero x"
| "py_not (JStr s) = (s = [])"
| "py_not (JArr xs) = (xs = [])"
| "py_not (JObj kvs) = (kvs = [])"

fun type_name :: "json \<Rightarrow> string" where
  "type_name JNull = ''NoneType''"
| "type_name (JBool b) = ''bool''"
| "type_name (JInt n) = ''int''"
| "type_name (JFloat x) = ''float''"
| "type_name (JStr s) = ''str''"
| "type_name (JArr xs) = ''list''"
| "type_name (JObj kvs) = ''dict''"

definition no_attribute :: "json \<Rightarrow> string \<Rightarrow> exn" where
  "no_attribute v attr =
     AttributeError ([CHR 0x27] @ type_name v @ [CHR 0x27] @ '' object has no attribute ''
                     @ [CHR 0x27] @ attr @ [CHR 0x27])"

text \<open>\<^verbatim>\<open>data.get(key, default)\<close>: only a dict has the method.\<close>

definition dict_get :: "json \<Rightarrow> string \<Rightarrow> json \<Rightarrow> exn + json" where
  "dict_get data key dflt =
     (case data of
        JObj kvs \<Rightarrow> Inr (case map_of kvs key of None \<Rightarrow> dflt | Some v \<Rightarrow> v)
      | _ \<Rightarrow> Inl (no_attribute data ''get''))"

text \<open>
  \<^verbatim>\<open>os.fspath\<close>, applied by \<^verbatim>\<open>os.path.join\<close> to each of its arguments; the error is
  the one \<^verbatim>\<open>os.path.join\<close> reports for an argument that is not a path.
\<close>

definition fspath :: "json \<Rightarrow> exn + string" where
  "fspath v =
     (case v of
        JStr s \<Rightarrow> Inr s
      | _ \<Rightarrow> Inl (TypeError (''join() argument must be str, bytes, or os.PathLike object, not ''
                            @ [CHR 0x27] @ type_name v @ [CHR 0x27])))"

text \<open>
  \<^verbatim>\<open>f"{v}"\<close> where the handler formats a request field: it does so only after
  \<^verbatim>\<open>parse_s3_uri\<close> has returned, hence on a \<^verbatim>\<open>str\<close>, which formats as itself.
\<close>

definition format_str :: "json \<Rightarrow> string" where
  "format_str v = (case v of JStr s \<Rightarrow> s | _ \<Rightarrow> [])"

section \<open>String and path functions of the Python library\<close>

text \<open>
  \<^verbatim>\<open>s.replace(old, new)\<close>: every non-overlapping occurrence of \<open>old\<close>, found from
  left to right, is replaced. With an empty \<open>old\<close> Python puts \<open>new\<close> before every
  character and at the end.
\<close>

function py_replace :: "string \<Rightarrow> string \<Rightarrow> string \<Rightarrow> string" where
  "py_replace old new s =
     (if old = [] then new @ concat (map (\<lambda>c. c # new) s)
      else if prefix old s then new @ py_replace old new (drop (length old) s)
      else (case s of [] \<Rightarrow> [] | c # cs \<Rightarrow> c # py_replace old new cs))"
  by pat_completeness auto
termination
  by (relation "measure (\<lambda>(old, new, s). length s)") (auto simp: prefix_def)

declare py_replace.simps [simp del]

text \<open>\<^verbatim>\<open>s.split(sep, 1)\<close> for a one-character separator: at most one split.\<close>

definition py_split1 :: "char \<Rightarrow> string \<Rightarrow> string list" where
  "py_split1 sep s =
     (if sep \<in> set s
      then [takeWhile (\<lambda>c. c \<noteq> sep) s, tl (dropWhile (\<lambda>c. c \<noteq> sep) s)]
      else [s])"

text \<open>\<^verbatim>\<open>xs[i]\<close> for a non-negative index.\<close>

definition list_index :: "'a list \<Rightarrow> nat \<Rightarrow> exn + 'a" where
  "list_index xs i =
     (if i < length xs then Inr (xs ! i) else Inl (IndexError ''list index out of range''))"

text \<open>\<^verbatim>\<open>s.rstrip('/')\<close>.\<close>

definition rstrip_slash :: "string \<Rightarrow> string" where
  "rstrip_slash s = rev (dropWhile (\<lambda>c. c = CHR ''/'') (rev s))"

text \<open>\<^verbatim>\<open>os.path.basename\<close> (POSIX): what follows the last slash.\<close>

definition basename :: "string \<Rightarrow> string" where
  "basename p = rev (takeWhile (\<lambda>c. c \<noteq> CHR ''/'') (rev p))"

text \<open>\<^verbatim>\<open>os.path.join(a, b)\<close> (POSIX); three arguments are joined from the left.\<close>

definition path_join :: "string \<Rightarrow> string \<Rightarrow> string" where
  "path_join a b =
     (if prefix ''/'' b then b
      else if a = [] \<or> last a = CHR ''/'' then a @ b
      else a @ ''/'' @ b)"

text \<open>
  \<^verbatim>\<open>Path(name).stem\<close> for a name without a slash (CPython up to 3.13): the name up to
  its last dot, unless that dot is the first or the last character. The path \<^verbatim>\<open>.\<close> has
  the empty name.
\<close>

definition path_stem :: "string \<Rightarrow> string" where
  "path_stem filename =
     (let name = (if filename = ''.'' then [] else filename);
          i = length name - length (takeWhile (\<lambda>c. c \<noteq> CHR ''.'') (rev name)) - 1
      in if CHR ''.'' \<in> set name \<and> 0 < i \<and> i < length name - 1 then take i name else name)"

text \<open>\<^verbatim>\<open>" ".join(cmd)\<close>.\<close>

fun join_spaces :: "string list \<Rightarrow> string" where
  "join_spaces [] = []"
| "join_spaces [x] = x"
| "join_spaces (x # y # ys) = x @ '' '' @ join_spaces (y # ys)"

section \<open>\<^verbatim>\<open>parse_s3_uri\<close>\<close>

text \<open>
  \<^verbatim>\<open>
  def parse_s3_uri(uri):
      parts = uri.replace("s3://", "").split("/", 1)
      return parts[0], parts[1]
  \<close>
  A value that is not a \<^verbatim>\<open>str\<close> has no method \<^verbatim>\<open>replace\<close>.
\<close>

definition parse_s3_uri :: "json \<Rightarrow> exn + string \<times> string" where
  "parse_s3_uri uri =
     (case uri of
        JStr s \<Rightarrow>
          (let parts = py_split1 (CHR ''/'') (py_replace ''s3://'' [] s) in
           case list_index parts 0 of
             Inl e \<Rightarrow> Inl e
           | Inr p0 \<Rightarrow>
               (case list_index parts 1 of
                  Inl e \<Rightarrow> Inl e
                | Inr p1 \<Rightarrow> Inr (p0, p1)))
      | _ \<Rightarrow> Inl (no_attribute uri ''replace''))"

text \<open>
  The decomposition in the words of the specification: strip the scheme prefix (only at
  the front), then split once on the first separator.
\<close>

definition strip_scheme_then_split :: "string \<Rightarrow> (string \<times> string) option" where
  "strip_scheme_then_split uri =
     (let rest = (if prefix ''s3://'' uri then drop 5 uri else uri)
      in if CHR ''/'' \<in> set rest
         then Some (takeWhile (\<lambda>c. c \<noteq> CHR ''/'') rest, tl (dropWhile (\<lambda>c. c \<noteq> CHR ''/'') rest))
         else None)"

section \<open>The world outside the handler\<close>

text \<open>
  The local disk is the set of the paths that exist, keyed by the path strings the
  handler computes: two spellings of one path (with and without a trailing slash, say)
  are two keys, so the model of a deletion is exact only for paths in the spelling under
  which they were created. The trace lists the I/O operations the handler attempted, oldest
  first; the console holds the lines it printed.
\<close>

datatype event =
    Download string string string
  | MakeDirs string
  | RunTool "string list"
  | ListDir string
  | Upload string string string
  | Remove string
  | RmTree string

record world =
  disk :: "string \<Rightarrow> bool"
  trace :: "event list"
  console :: "string list"

record completed_process =
  returncode :: int
  stdout :: string
  stderr :: string

text \<open>
  What the handler does not decide is decided by the environment: whether a transfer or
  a file operation fails (\<open>Some e\<close>: it raises \<open>e\<close>), what the separation tool
  returns and how it changes the disk, what a directory lists, and the text of
  \<^verbatim>\<open>traceback.format_exc()\<close>.
\<close>

record env =
  sys_executable :: string
  s3_download_file :: "string \<Rightarrow> string \<Rightarrow> string \<Rightarrow> exn option"
  os_makedirs :: "string \<Rightarrow> exn option"
  subprocess_run :: "string list \<Rightarrow> exn + completed_process \<times> ((string \<Rightarrow> bool) \<Rightarrow> string \<Rightarrow> bool)"
  os_listdir :: "string \<Rightarrow> exn + string list"
  s3_upload_file :: "string \<Rightarrow> string \<Rightarrow> string \<Rightarrow> exn option"
  os_remove :: "string \<Rightarrow> exn option"
  shutil_rmtree :: "string \<Rightarrow> exn option"
  format_exc :: "exn \<Rightarrow> string"

text \<open>A computation changes the world and returns a value or raises an exception.\<close>

type_synonym 'a io = "world \<Rightarrow> (exn + 'a) \<times> world"

definition returnE :: "'a \<Rightarrow> 'a io" where
  "returnE x w = (Inr x, w)"

definition raiseE :: "exn \<Rightarrow> 'a io" where
  "raiseE e w = (Inl e, w)"

definition liftE :: "exn + 'a \<Rightarrow> 'a io" where
  "liftE r w = (r, w)"

definition bindE :: "'a io \<Rightarrow> ('a \<Rightarrow> 'b io) \<Rightarrow> 'b io" where
  "bindE m f w = (case m w of (Inl e, w') \<Rightarrow> (Inl e, w') | (Inr x, w') \<Rightarrow> f x w')"

text \<open>\<^verbatim>\<open>try: m except Exception as e: h(e)\<close>.\<close>

definition try_except :: "'a io \<Rightarrow> (exn \<Rightarrow> 'a io) \<Rightarrow> 'a io" where
  "try_except m h w = (case m w of (Inl e, w') \<Rightarrow> h e w' | (Inr x, w') \<Rightarrow> (Inr x, w'))"

definition print :: "string \<Rightarrow> unit io" where
  "print line w = (Inr (), w\<lparr>console := console w @ [line]\<rparr>)"

definition record_event :: "event \<Rightarrow> world \<Rightarrow> world" where
  "record_event ev w = w\<lparr>trace := trace w @ [ev]\<rparr>"

definition is_under :: "string \<Rightarrow> string \<Rightarrow> bool" where
  "is_under dir p = (prefix (dir @ ''/'') p \<and> p \<noteq> dir @ ''/'')"

text \<open>\<^verbatim>\<open>s3_client.download_file(bucket, key, local_path)\<close>: on success the file exists.\<close>

definition download_file :: "env \<Rightarrow> string \<Rightarrow> string \<Rightarrow> string \<Rightarrow> unit io" where
  "download_file env bucket key local_path w =
     (let w1 = record_event (Download bucket key local_path) w in
      case s3_download_file env bucket key local_path of
        Some e \<Rightarrow> (Inl e, w1)
      | None \<Rightarrow> (Inr (), w1\<lparr>disk := (disk w1)(local_path := True)\<rparr>))"

text \<open>\<^verbatim>\<open>os.makedirs(path, exist_ok=True)\<close>: on success the directory and its ancestors exist.\<close>

definition makedirs :: "env \<Rightarrow> string \<Rightarrow> unit io" where
  "makedirs env path w =
     (let w1 = record_event (MakeDirs path) w in
      case os_makedirs env path of
        Some e \<Rightarrow> (Inl e, w1)
      | None \<Rightarrow> (Inr (), w1\<lparr>disk := (\<lambda>p. disk w1 p \<or> p = path \<or> is_under p path)\<rparr>))"

text \<open>\<^verbatim>\<open>subprocess.run(cmd, capture_output=True, text=True)\<close>.\<close>

definition run :: "env \<Rightarrow> string list \<Rightarrow> completed_process io" where
  "run env cmd w =
     (let w1 = record_event (RunTool cmd) w in
      case subprocess_run env cmd of
        Inl e \<Rightarrow> (Inl e, w1)
      | Inr (result, effect) \<Rightarrow> (Inr result, w1\<lparr>disk := effect (disk w1)\<rparr>))"

definition path_exists :: "string \<Rightarrow> bool io" where
  "path_exists p w = (Inr (disk w p), w)"

definition listdir :: "env \<Rightarrow> string \<Rightarrow> string list io" where
  "listdir env p w = (os_listdir env p, record_event (ListDir p) w)"

definition upload_file :: "env \<Rightarrow> string \<Rightarrow> string \<Rightarrow> string \<Rightarrow> unit io" where
  "upload_file env local_file bucket key w =
     (let w1 = record_event (Upload local_file bucket key) w in
      case s3_upload_file env local_file bucket key of
        Some e \<Rightarrow> (Inl e, w1)
      | None \<Rightarrow> (Inr (), w1))"

text \<open>\<^verbatim>\<open>os.remove(path)\<close>: on success the file is gone; on failure the disk is as before.\<close>

definition remove_file :: "env \<Rightarrow> string \<Rightarrow> unit io" where
  "remove_file env path w =
     (let w1 = record_event (Remove path) w in
      case os_remove env path of
        Some e \<Rightarrow> (Inl e, w1)
      | None \<Rightarrow> (Inr (), w1\<lparr>disk := (disk w1)(path := False)\<rparr>))"

text \<open>
  \<^verbatim>\<open>shutil.rmtree(path)\<close>: on success the directory and all below it are gone. What a
  failed call has already deleted is not modelled: the disk is as before.
\<close>

definition rmtree :: "env \<Rightarrow> string \<Rightarrow> unit io" where
  "rmtree env path w =
     (let w1 = record_event (RmTree path) w in
      case shutil_rmtree env path of
        Some e \<Rightarrow> (Inl e, w1)
      | None \<Rightarrow> (Inr (), w1\<lparr>disk := (\<lambda>p. disk w1 p \<and> p \<noteq> path \<and> \<not> is_under path p)\<rparr>))"

section \<open>\<^verbatim>\<open>cleanup_local_files\<close>\<close>

text \<open>
  \<^verbatim>\<open>
  def cleanup_local_files(input_path, output_path):
      try:
          if os.path.exists(input_path):
              os.remove(input_path)
          if os.path.exists(output_path):
              shutil.rmtree(output_path)
          print("Cleaned up local files")
      except Exception as e:
          print(f"Cleanup failed: {e}")
  \<close>
\<close>

definition cleanup_local_files :: "env \<Rightarrow> string \<Rightarrow> string \<Rightarrow> unit io" where
  "cleanup_local_files env input_path output_path =
     try_except
       (bindE (path_exists input_path) (\<lambda>input_exists.
        bindE (if input_exists then remove_file env input_path else returnE ()) (\<lambda>_.
        bindE (path_exists output_path) (\<lambda>output_exists.
        bindE (if output_exists then rmtree env output_path else returnE ()) (\<lambda>_.
        print ''Cleaned up local files'')))))
       (\<lambda>e. print (''Cleanup failed: '' @ str_exn e))"

section \<open>\<^verbatim>\<open>invocations\<close>\<close>

definition UPLOAD_DIR :: string where
  "UPLOAD_DIR = ''/tmp/uploads''"

definition OUTPUT_DIR :: string where
  "OUTPUT_DIR = ''/tmp/output''"

type_synonym response = "json \<times> nat"

text \<open>
  The loop of lines 76 to 85: each file of the listing is uploaded under
  \<^verbatim>\<open>f"{output_prefix.rstrip('/')}/{session_id}/{filename}"\<close> and added to
  \<^verbatim>\<open>uploaded_files\<close>; the first upload that raises ends the loop.
\<close>

fun upload_loop ::
  "env \<Rightarrow> string \<Rightarrow> string \<Rightarrow> string \<Rightarrow> string \<Rightarrow> string list \<Rightarrow> json list \<Rightarrow> json list io"
where
  "upload_loop env separated_dir output_bucket output_prefix session_id [] uploaded_files w =
     returnE uploaded_files w"
| "upload_loop env separated_dir output_bucket output_prefix session_id (filename # rest) uploaded_files w =
     (let local_file = path_join separated_dir filename;
          s3_key = rstrip_slash output_prefix @ ''/'' @ session_id @ ''/'' @ filename
      in bindE (print (''Uploading '' @ local_file @ '' -> s3://'' @ output_bucket @ ''/'' @ s3_key)) (\<lambda>_.
         bindE (upload_file env local_file output_bucket s3_key) (\<lambda>_.
         upload_loop env separated_dir output_bucket output_prefix session_id rest
           (uploaded_files @
              [JObj [(''filename'', JStr filename),
                     (''s3_uri'', JStr (''s3://'' @ output_bucket @ ''/'' @ s3_key))]]))) w)"

text \<open>The list \<^verbatim>\<open>cmd\<close> of lines 51 to 58.\<close>

definition demucs_cmd :: "env \<Rightarrow> string \<Rightarrow> string \<Rightarrow> string list" where
  "demucs_cmd env output_path local_input_path =
     [sys_executable env, ''-m'', ''demucs.separate'',
      ''-n'', ''htdemucs'',
      ''--two-stems'', ''vocals'',
      ''--name'', ''htdemucs'',
      ''-o'', output_path,
      local_input_path]"

text \<open>
  The body of the \<^verbatim>\<open>try\<close> of \<^verbatim>\<open>invocations\<close> (lines 30 to 93). Its argument is what
  \<^verbatim>\<open>json.loads(request.data.decode("utf-8"))\<close> gives: the parsed value, or the
  exception of the decoder.
\<close>

definition invocations_try :: "env \<Rightarrow> exn + json \<Rightarrow> response io" where
  "invocations_try env request_data =
     bindE (liftE request_data) (\<lambda>data.
     bindE (liftE (dict_get data ''input_s3_uri'' JNull)) (\<lambda>input_s3_uri.
     bindE (liftE (dict_get data ''output_s3_prefix'' JNull)) (\<lambda>output_s3_prefix.
     bindE (liftE (dict_get data ''session_id'' (JStr ''default''))) (\<lambda>session_id_value.
     if py_not input_s3_uri \<or> py_not output_s3_prefix
     then returnE (JObj [(''error'', JStr ''Missing input_s3_uri or output_s3_prefix'')], 400)
     else
     bindE (liftE (parse_s3_uri input_s3_uri)) (\<lambda>(input_bucket, input_key).
     bindE (liftE (parse_s3_uri output_s3_prefix)) (\<lambda>(output_bucket, output_prefix).
     let input_filename = basename input_key;
         local_input_path = path_join UPLOAD_DIR input_filename
     in
     bindE (print (''Downloading '' @ format_str input_s3_uri @ '' -> '' @ local_input_path)) (\<lambda>_.
     bindE (download_file env input_bucket input_key local_input_path) (\<lambda>_.
     bindE (print (''Processing using Demucs for: '' @ input_filename)) (\<lambda>_.
     bindE (liftE (fspath session_id_value)) (\<lambda>session_id.
     let output_path = path_join OUTPUT_DIR session_id in
     bindE (makedirs env output_path) (\<lambda>_.
     let cmd = demucs_cmd env output_path local_input_path in
     bindE (print (''Command: '' @ join_spaces cmd)) (\<lambda>_.
     bindE (run env cmd) (\<lambda>result.
     bindE (print (''STDOUT: '' @ stdout result)) (\<lambda>_.
     bindE (print (''STDERR: '' @ stderr result)) (\<lambda>_.
     if returncode result \<noteq> 0
     then raiseE (RuntimeError (''Demucs failed'' @ newline @ stderr result))
     else
     let separated_dir = path_join (path_join output_path ''htdemucs'') (path_stem input_filename) in
     bindE (path_exists separated_dir) (\<lambda>separated_exists.
     if \<not> separated_exists
     then raiseE (RuntimeError ''Output not found. Demucs path may be wrong.'')
     else
     bindE (listdir env separated_dir) (\<lambda>filenames.
     bindE (upload_loop env separated_dir output_bucket output_prefix session_id filenames []) (\<lambda>uploaded_files.
     bindE (cleanup_local_files env local_input_path output_path) (\<lambda>_.
     returnE (JObj [(''status'', JStr ''success''),
                    (''session_id'', JStr session_id),
                    (''output_files'', JArr uploaded_files)], 200))))))))))))))))))))"

text \<open>
  The handler: the \<^verbatim>\<open>except Exception\<close> of lines 95 to 98 turns every exception of
  the body into the HTTP 500 response.
\<close>

definition invocations :: "env \<Rightarrow> exn + json \<Rightarrow> response io" where
  "invocations env request_data =
     try_except (invocations_try env request_data)
       (\<lambda>e. let error_msg = ''Error: '' @ str_exn e @ newline @ format_exc env e in
            bindE (print error_msg) (\<lambda>_.
            returnE (JObj [(''error'', JStr error_msg)], 500)))"

text \<open>The status code of the response a run of the handler returned.\<close>

definition http_status :: "(exn + response) \<times> world \<Rightarrow> nat option" where
  "http_status r = (case fst r of Inl e \<Rightarrow> None | Inr (body, code) \<Rightarrow> Some code)"

text \<open>
  The disk at the moment the tool is started: what was there before, the downloaded
  input file, the per-session output directory and its ancestors.
\<close>

definition staged_disk :: "(string \<Rightarrow> bool) \<Rightarrow> string \<Rightarrow> string \<Rightarrow> string \<Rightarrow> bool" where
  "staged_disk d local_input_path output_path =
     (\<lambda>p. (d(local_input_path := True)) p \<or> p = output_path \<or> is_under p output_path)"

section \<open>Concrete requests and environments\<close>

text \<open>
  When the module is loaded it creates the two scratch roots; nothing else is on the
  local disk.
\<close>

definition initial_world :: world where
  "initial_world = \<lparr>disk = (\<lambda>p. p = UPLOAD_DIR \<or> p = OUTPUT_DIR), trace = [], console = []\<rparr>"

text \<open>The disk after a download and the creation of the output directory of session \<^verbatim>\<open>abc\<close>.\<close>

definition staged_world :: world where
  "staged_world =
     \<lparr>disk = (\<lambda>p. p = UPLOAD_DIR \<or> p = OUTPUT_DIR \<or> p = ''/tmp/uploads/track.wav''
                   \<or> p = ''/tmp/output/abc''),
      trace = [], console = []\<rparr>"

definition sample_data :: json where
  "sample_data =
     JObj [(''input_s3_uri'', JStr ''s3://in-bucket/songs/track.wav''),
           (''output_s3_prefix'', JStr ''s3://out-bucket/stems/''),
           (''session_id'', JStr ''abc'')]"

text \<open>
  An environment in which every transfer and file operation succeeds and the tool
  writes the two stems where the handler looks for them.
\<close>

definition sample_env :: env where
  "sample_env =
     \<lparr>sys_executable = ''/usr/bin/python3'',
      s3_download_file = (\<lambda>bucket key path. None),
      os_makedirs = (\<lambda>path. None),
      subprocess_run = (\<lambda>cmd.
        Inr (\<lparr>returncode = 0, stdout = ''done'', stderr = []\<rparr>,
             (\<lambda>d p. d p \<or> p = ''/tmp/output/abc/htdemucs''
                      \<or> p = ''/tmp/output/abc/htdemucs/track''
                      \<or> p = ''/tmp/output/abc/htdemucs/track/vocals.wav''
                      \<or> p = ''/tmp/output/abc/htdemucs/track/no_vocals.wav''))),
      os_listdir = (\<lambda>p.
        if p = ''/tmp/output/abc/htdemucs/track'' then Inr [''vocals.wav'', ''no_vocals.wav'']
        else Inl (LibraryError ''FileNotFoundError'' p)),
      s3_upload_file = (\<lambda>local_file bucket key. None),
      os_remove = (\<lambda>path. None),
      shutil_rmtree = (\<lambda>path. None),
      format_exc = (\<lambda>e. ''Traceback (most recent call last): ...'')\<rparr>"

definition failed_download_env :: env where
  "failed_download_env =
     sample_env\<lparr>s3_download_file := (\<lambda>bucket key path. Some (LibraryError ''ClientError'' ''Not Found''))\<rparr>"

definition failed_tool_env :: env where
  "failed_tool_env =
     sample_env\<lparr>subprocess_run := (\<lambda>cmd.
       Inr (\<lparr>returncode = 1, stdout = [], stderr = ''cannot load track''\<rparr>, (\<lambda>d. d)))\<rparr>"

definition failed_upload_env :: env where
  "failed_upload_env =
     sample_env\<lparr>s3_upload_file := (\<lambda>local_file bucket key.
       Some (LibraryError ''S3UploadFailedError'' ''Access Denied''))\<rparr>"

definition failed_cleanup_env :: env where
  "failed_cleanup_env =
     sample_env\<lparr>os_remove := (\<lambda>path. Some (LibraryError ''PermissionError'' ''Permission denied''))\<rparr>"

definition failed_rmtree_env :: env where
  "failed_rmtree_env =
     sample_env\<lparr>shutil_rmtree := (\<lambda>path. Some (LibraryError ''OSError'' ''Directory not empty''))\<rparr>"

section \<open>Facts about the string functions\<close>

lemma py_replace_Nil: "old \<noteq> [] \<Longrightarrow> py_replace old new [] = []"
  by (subst py_replace.simps) simp

lemma py_replace_prefix:
  "old \<noteq> [] \<Longrightarrow> py_replace old new (old @ s) = new @ py_replace old new s"
  by (subst py_replace.simps) simp

lemma py_replace_Cons:
  "old \<noteq> [] \<Longrightarrow> \<not> prefix old (c # cs) \<Longrightarrow>
   py_replace old new (c # cs) = c # py_replace old new cs"
  by (subst py_replace.simps) simp

text \<open>A string without an occurrence of \<open>old\<close> is left as it is.\<close>

lemma py_replace_id: "old \<noteq> [] \<Longrightarrow> \<not> sublist old s \<Longrightarrow> py_replace old new s = s"
proof (induction s)
  case Nil
  then show ?case by (simp add: py_replace_Nil)
next
  case (Cons c cs)
  from Cons.prems have np: "\<not> prefix old (c # cs)"
    using prefix_imp_sublist by blast
  from Cons.prems have "\<not> sublist old cs"
    by (simp add: sublist_Cons_right)
  with Cons show ?case by (simp add: py_replace_Cons np)
qed

text \<open>Deleting occurrences never lengthens a string, and shortens one that has any.\<close>

lemma py_replace_length_le: "old \<noteq> [] \<Longrightarrow> length (py_replace old [] s) \<le> length s"
proof (induction s rule: length_induct)
  case (1 s)
  show ?case
  proof (cases "prefix old s")
    case True
    then obtain r where s: "s = old @ r" by (auto simp: prefix_def)
    from s 1(2) have "length r < length s" by simp
    with 1 have "length (py_replace old [] r) \<le> length r" by blast
    with s 1(2) show ?thesis by (simp add: py_replace_prefix)
  next
    case False
    show ?thesis
    proof (cases s)
      case Nil
      with 1(2) show ?thesis by (simp add: py_replace_Nil)
    next
      case (Cons c cs)
      with 1 have "length (py_replace old [] cs) \<le> length cs" by simp
      with Cons False 1(2) show ?thesis by (simp add: py_replace_Cons)
    qed
  qed
qed

lemma py_replace_length_less:
  "old \<noteq> [] \<Longrightarrow> sublist old s \<Longrightarrow> length (py_replace old [] s) < length s"
proof (induction s)
  case Nil
  then show ?case by simp
next
  case (Cons c cs)
  show ?case
  proof (cases "prefix old (c # cs)")
    case True
    then obtain r where s: "c # cs = old @ r" by (auto simp: prefix_def)
    have le: "length (py_replace old [] r) \<le> length r"
      using Cons.prems(1) by (rule py_replace_length_le)
    have e: "py_replace old [] (c # cs) = py_replace old [] r"
      unfolding s using Cons.prems(1) by (simp add: py_replace_prefix)
    have l: "length (c # cs) = length old + length r" by (simp only: s length_append)
    have p: "0 < length old" using Cons.prems(1) by simp
    show ?thesis unfolding e using le l p by linarith
  next
    case False
    with Cons.prems have "sublist old cs" by (auto simp: sublist_Cons_right)
    with Cons False show ?thesis by (simp add: py_replace_Cons)
  qed
qed

text \<open>
  No occurrence of the scheme can begin before an occurrence and end inside it, so the
  scan removes an occurrence wherever it stands.
\<close>

lemma scheme_no_straddle:
  "\<not> prefix ''s3://'' (c # cs) \<Longrightarrow> \<not> prefix ''s3://'' ((c # cs) @ ''s3://'' @ post)"
  by (auto simp: prefix_append Cons_eq_append_conv)

lemma py_replace_scheme_append:
  "py_replace ''s3://'' [] (pre @ ''s3://'' @ post) =
   py_replace ''s3://'' [] pre @ py_replace ''s3://'' [] post"
proof (induction pre rule: length_induct)
  case (1 pre)
  show ?case
  proof (cases pre)
    case Nil
    then show ?thesis
      using py_replace_prefix [of "''s3://''" "[]" post] by (simp add: py_replace_Nil)
  next
    case (Cons c cs)
    show ?thesis
    proof (cases "prefix ''s3://'' pre")
      case True
      then obtain r where r: "pre = ''s3://'' @ r" by (auto simp: prefix_def)
      then have "length r < length pre" by simp
      with 1 have "py_replace ''s3://'' [] (r @ ''s3://'' @ post) =
                   py_replace ''s3://'' [] r @ py_replace ''s3://'' [] post" by blast
      then show ?thesis unfolding r
        using py_replace_prefix [of "''s3://''" "[]" "r @ ''s3://'' @ post"]
          py_replace_prefix [of "''s3://''" "[]" r]
        by simp
    next
      case False
      with Cons have np: "\<not> prefix ''s3://'' ((c # cs) @ ''s3://'' @ post)"
        using scheme_no_straddle by blast
      from Cons 1 have "py_replace ''s3://'' [] (cs @ ''s3://'' @ post) =
                        py_replace ''s3://'' [] cs @ py_replace ''s3://'' [] post" by simp
      with np False Cons show ?thesis
        using py_replace_Cons [of "''s3://''" c "cs @ ''s3://'' @ post" "[]"]
          py_replace_Cons [of "''s3://''" c cs "[]"]
        by simp
    qed
  qed
qed

lemma sublist_scheme_slash: "sublist ''s3://'' s \<Longrightarrow> CHR ''/'' \<in> set s"
  by (auto simp: sublist_def)

section \<open>Facts about \<^verbatim>\<open>parse_s3_uri\<close>\<close>

text \<open>
  The function returns a pair exactly when the string left after the replacement has a
  slash; the pair is what stands before and after the first one.
\<close>

lemma parse_s3_uri_Inr_iff:
  "parse_s3_uri (JStr s) = Inr (b, k) \<longleftrightarrow>
   CHR ''/'' \<notin> set b \<and> py_replace ''s3://'' [] s = b @ ''/'' @ k"
proof -
  let ?r = "py_replace ''s3://'' [] s"
  let ?P = "\<lambda>c. c \<noteq> CHR ''/''"
  show ?thesis
  proof (cases "CHR ''/'' \<in> set ?r")
    case False
    then show ?thesis by (auto simp: parse_s3_uri_def py_split1_def list_index_def)
  next
    case True
    have id: "takeWhile ?P ?r @ dropWhile ?P ?r = ?r" by simp
    from True have dw: "dropWhile ?P ?r \<noteq> []" by simp
    then have hd: "hd (dropWhile ?P ?r) = CHR ''/''"
      using hd_dropWhile [of ?P ?r] by simp
    have p: "parse_s3_uri (JStr s) = Inr (takeWhile ?P ?r, tl (dropWhile ?P ?r))"
      using True by (simp add: parse_s3_uri_def py_split1_def list_index_def)
    show ?thesis
    proof
      assume "parse_s3_uri (JStr s) = Inr (b, k)"
      with p have b: "b = takeWhile ?P ?r" and k: "k = tl (dropWhile ?P ?r)" by simp_all
      from b have "CHR ''/'' \<notin> set b" by (auto dest: set_takeWhileD)
      moreover from dw hd have "dropWhile ?P ?r = CHR ''/'' # k"
        unfolding k by (cases "dropWhile ?P ?r") auto
      with id b have "?r = b @ ''/'' @ k" by simp
      ultimately show "CHR ''/'' \<notin> set b \<and> ?r = b @ ''/'' @ k" by simp
    next
      assume a: "CHR ''/'' \<notin> set b \<and> ?r = b @ ''/'' @ k"
      then have nb: "\<And>x. x \<in> set b \<Longrightarrow> x \<noteq> CHR ''/''" by auto
      from a nb have "takeWhile ?P ?r = b" by (simp add: takeWhile_tail)
      moreover from a nb have "dropWhile ?P ?r = CHR ''/'' # k" by simp
      ultimately show "parse_s3_uri (JStr s) = Inr (b, k)" using p by simp
    qed
  qed
qed

text \<open>Where the scheme stands only at the front, the decomposition is the expected one.\<close>

lemma parse_s3_uri_leading_scheme:
  assumes "CHR ''/'' \<notin> set bucket" and "\<not> sublist ''s3://'' (bucket @ ''/'' @ key)"
  shows "parse_s3_uri (JStr (''s3://'' @ bucket @ ''/'' @ key)) = Inr (bucket, key)"
proof -
  have "py_replace ''s3://'' [] (''s3://'' @ bucket @ ''/'' @ key) =
        py_replace ''s3://'' [] (bucket @ ''/'' @ key)"
    using py_replace_prefix [of "''s3://''" "[]" "bucket @ ''/'' @ key"] by simp
  also have "\<dots> = bucket @ ''/'' @ key" using assms(2) by (simp add: py_replace_id)
  finally show ?thesis using assms(1) by (simp only: parse_s3_uri_Inr_iff) simp
qed

lemma parse_s3_uri_no_separator:
  assumes "CHR ''/'' \<notin> set bucket" and "uri = ''s3://'' @ bucket \<or> uri = bucket"
  shows "parse_s3_uri (JStr uri) = Inl (IndexError ''list index out of range'')"
proof -
  from assms(1) have ns: "\<not> sublist ''s3://'' bucket" using sublist_scheme_slash by blast
  then have b: "py_replace ''s3://'' [] bucket = bucket" by (simp add: py_replace_id)
  have "py_replace ''s3://'' [] (''s3://'' @ bucket) = py_replace ''s3://'' [] bucket"
    using py_replace_prefix [of "''s3://''" "[]" bucket] by simp
  with b assms(2) have "py_replace ''s3://'' [] uri = bucket" by auto
  with assms(1) show ?thesis by (simp add: parse_s3_uri_def py_split1_def list_index_def)
qed

lemma parse_s3_uri_truthy: "parse_s3_uri v = Inr p \<Longrightarrow> \<not> py_not v"
  by (cases v)
    (auto simp: parse_s3_uri_def no_attribute_def py_split1_def list_index_def py_replace_Nil
          split: if_splits)

lemmas io_defs = bindE_def returnE_def raiseE_def liftE_def try_except_def print_def Let_def

section \<open>Facts about the steps of the handler\<close>

lemmas path_defs = path_join_def basename_def path_stem_def rstrip_slash_def UPLOAD_DIR_def
  OUTPUT_DIR_def is_under_def

lemmas step_defs = download_file_def makedirs_def run_def listdir_def upload_file_def
  remove_file_def rmtree_def path_exists_def record_event_def cleanup_local_files_def
  fspath_def dict_get_def demucs_cmd_def

text \<open>How a step that succeeds passes control to the rest of the handler.\<close>

lemma bindE_liftE: "bindE (liftE r) f w = (case r of Inl e \<Rightarrow> (Inl e, w) | Inr x \<Rightarrow> f x w)"
  by (simp add: bindE_def liftE_def split: sum.splits)

lemma bindE_print: "bindE (print line) f w = f () (w\<lparr>console := console w @ [line]\<rparr>)"
  by (simp add: bindE_def print_def)

lemma bindE_download_ok:
  "s3_download_file env b k p = None \<Longrightarrow>
   bindE (download_file env b k p) f w =
     f () (w\<lparr>trace := trace w @ [Download b k p], disk := (disk w)(p := True)\<rparr>)"
  by (simp add: bindE_def download_file_def record_event_def)

lemma bindE_makedirs_ok:
  "os_makedirs env p = None \<Longrightarrow>
   bindE (makedirs env p) f w =
     f () (w\<lparr>trace := trace w @ [MakeDirs p], disk := (\<lambda>q. disk w q \<or> q = p \<or> is_under q p)\<rparr>)"
  by (simp add: bindE_def makedirs_def record_event_def)

lemma bindE_run_ok:
  "subprocess_run env cmd = Inr (result, effect) \<Longrightarrow>
   bindE (run env cmd) f w =
     f result (w\<lparr>trace := trace w @ [RunTool cmd], disk := effect (disk w)\<rparr>)"
  by (simp add: bindE_def run_def record_event_def)

lemma bindE_path_exists: "bindE (path_exists p) f w = f (disk w p) w"
  by (simp add: bindE_def path_exists_def)

lemma bindE_listdir_ok:
  "os_listdir env p = Inr fs \<Longrightarrow>
   bindE (listdir env p) f w = f fs (w\<lparr>trace := trace w @ [ListDir p]\<rparr>)"
  by (simp add: bindE_def listdir_def record_event_def)

lemma fst_try_except_Inr: "fst (m w) = Inr x \<Longrightarrow> fst (try_except m h w) = Inr x"
  by (cases "m w") (auto simp: try_except_def)

lemma fst_bindE_cong:
  "(\<And>x w'. fst (f x w') = fst (g x w')) \<Longrightarrow> fst (bindE m f w) = fst (bindE m g w)"
  by (auto simp: bindE_def split: prod.splits sum.splits)

text \<open>The cleanup catches whatever its deletions raise.\<close>

lemma cleanup_never_raises: "fst (cleanup_local_files env input_path output_path w) = Inr ()"
  by (simp add: cleanup_local_files_def io_defs path_exists_def remove_file_def rmtree_def
        split: option.splits)

lemma cleanup_Inl: "cleanup_local_files env a b w = (Inl e, w') \<Longrightarrow> False"
  using cleanup_never_raises [of env a b w] by simp

lemma fst_bindE_cleanup:
  "fst (bindE (cleanup_local_files env a b) (\<lambda>_. returnE x) w) = Inr x"
  using cleanup_never_raises [of env a b w]
  by (cases "cleanup_local_files env a b w") (auto simp: bindE_def returnE_def split: sum.splits)

text \<open>No step takes an event out of the trace.\<close>

lemma cleanup_trace_snd:
  "ev \<in> set (trace w) \<Longrightarrow> ev \<in> set (trace (snd (cleanup_local_files env a b w)))"
  by (simp add: cleanup_local_files_def io_defs path_exists_def remove_file_def rmtree_def
        record_event_def split: option.splits)

lemma cleanup_trace:
  "cleanup_local_files env a b w = (r, w') \<Longrightarrow> ev \<in> set (trace w) \<Longrightarrow> ev \<in> set (trace w')"
  using cleanup_trace_snd [of ev w env a b] by simp

lemma upload_loop_trace:
  "upload_loop env sd ob op sid fs acc w = (r, w') \<Longrightarrow> ev \<in> set (trace w) \<Longrightarrow> ev \<in> set (trace w')"
proof (induction fs arbitrary: acc w)
  case Nil
  then show ?case by (simp add: returnE_def)
next
  case (Cons f fs)
  show ?case
  proof (cases "s3_upload_file env (path_join sd f) ob (rstrip_slash op @ ''/'' @ sid @ ''/'' @ f)")
    case None
    with Cons.prems(1) have "upload_loop env sd ob op sid fs
        (acc @ [JObj [(''filename'', JStr f), (''s3_uri'', JStr (''s3://'' @ ob @ ''/'' @ rstrip_slash op @ ''/'' @ sid @ ''/'' @ f))]])
        (record_event (Upload (path_join sd f) ob (rstrip_slash op @ ''/'' @ sid @ ''/'' @ f))
           (w\<lparr>console := console w @ [''Uploading '' @ path_join sd f @ '' -> s3://'' @ ob @ ''/'' @ rstrip_slash op @ ''/'' @ sid @ ''/'' @ f]\<rparr>)) = (r, w')"
      by (simp add: io_defs upload_file_def)
    from Cons.IH [OF this] Cons.prems(2) show ?thesis by (simp add: record_event_def)
  next
    case (Some e)
    with Cons.prems show ?thesis by (auto simp: io_defs upload_file_def record_event_def)
  qed
qed

text \<open>
  The invariant of the upload loop: while every upload succeeds, the list grows by one
  entry per file, in the order of the listing.
\<close>

lemma upload_loop_all_ok:
  assumes "upload_loop env sd ob op sid fs acc w = (r, w')"
    and "\<forall>f\<in>set fs. s3_upload_file env (path_join sd f) ob (rstrip_slash op @ ''/'' @ sid @ ''/'' @ f) = None"
  shows "r = Inr (acc @ map (\<lambda>f. JObj [(''filename'', JStr f),
                 (''s3_uri'', JStr (''s3://'' @ ob @ ''/'' @ rstrip_slash op @ ''/'' @ sid @ ''/'' @ f))]) fs)"
  using assms
proof (induction fs arbitrary: acc w)
  case Nil
  then show ?case by (simp add: returnE_def)
next
  case (Cons f fs)
  from Cons.prems have "upload_loop env sd ob op sid fs
        (acc @ [JObj [(''filename'', JStr f), (''s3_uri'', JStr (''s3://'' @ ob @ ''/'' @ rstrip_slash op @ ''/'' @ sid @ ''/'' @ f))]])
        (record_event (Upload (path_join sd f) ob (rstrip_slash op @ ''/'' @ sid @ ''/'' @ f))
           (w\<lparr>console := console w @ [''Uploading '' @ path_join sd f @ '' -> s3://'' @ ob @ ''/'' @ rstrip_slash op @ ''/'' @ sid @ ''/'' @ f]\<rparr>)) = (r, w')"
    by (simp add: io_defs upload_file_def)
  from Cons.IH [OF this] Cons.prems(2) show ?case by simp
qed

lemma fst_upload_then_cleanup:
  assumes "\<forall>f\<in>set fs. s3_upload_file env (path_join sd f) ob (rstrip_slash op @ ''/'' @ sid @ ''/'' @ f) = None"
  shows "fst (bindE (upload_loop env sd ob op sid fs acc)
                (\<lambda>uploaded_files. bindE (cleanup_local_files env a b) (\<lambda>_. returnE (g uploaded_files))) w)
         = Inr (g (acc @ map (\<lambda>f. JObj [(''filename'', JStr f),
                 (''s3_uri'', JStr (''s3://'' @ ob @ ''/'' @ rstrip_slash op @ ''/'' @ sid @ ''/'' @ f))]) fs))"
proof -
  obtain r w' where u: "upload_loop env sd ob op sid fs acc w = (r, w')"
    by (cases "upload_loop env sd ob op sid fs acc w")
  from upload_loop_all_ok [OF u assms] u show ?thesis
    by (simp add: bindE_def [of "upload_loop env sd ob op sid fs acc"] fst_bindE_cleanup)
qed

text \<open>Nothing before the cleanup looks at the outcome of a deletion.\<close>

lemma upload_loop_cleanup_indep:
  "upload_loop (env\<lparr>os_remove := r, shutil_rmtree := t\<rparr>) sd ob op sid fs acc w =
   upload_loop env sd ob op sid fs acc w"
  by (induction fs arbitrary: acc w) (simp_all add: io_defs upload_file_def split: option.splits)

lemma download_file_cleanup_indep:
  "download_file (env\<lparr>os_remove := r, shutil_rmtree := t\<rparr>) = download_file env"
  by (intro ext) (simp add: download_file_def)

lemma makedirs_cleanup_indep:
  "makedirs (env\<lparr>os_remove := r, shutil_rmtree := t\<rparr>) = makedirs env"
  by (intro ext) (simp add: makedirs_def)

lemma run_cleanup_indep:
  "run (env\<lparr>os_remove := r, shutil_rmtree := t\<rparr>) = run env"
  by (intro ext) (simp add: run_def)

lemma listdir_cleanup_indep:
  "listdir (env\<lparr>os_remove := r, shutil_rmtree := t\<rparr>) = listdir env"
  by (intro ext) (simp add: listdir_def)

lemma upload_loop_cleanup_indep':
  "upload_loop (env\<lparr>os_remove := r, shutil_rmtree := t\<rparr>) = upload_loop env"
  by (intro ext) (rule upload_loop_cleanup_indep)

lemma demucs_cmd_cleanup_indep:
  "demucs_cmd (env\<lparr>os_remove := r, shutil_rmtree := t\<rparr>) = demucs_cmd env"
  by (intro ext) (simp add: demucs_cmd_def)

lemmas cleanup_indep = download_file_cleanup_indep makedirs_cleanup_indep run_cleanup_indep
  listdir_cleanup_indep upload_loop_cleanup_indep' demucs_cmd_cleanup_indep

lemma invocations_try_cleanup_indep:
  "fst (invocations_try (env\<lparr>os_remove := r, shutil_rmtree := t\<rparr>) request_data w) =
   fst (invocations_try env request_data w)"
  unfolding invocations_try_def Let_def cleanup_indep
  by (intro fst_bindE_cong | simp add: fst_bindE_cleanup split: prod.splits | intro allI impI conjI)+

lemma invocations_cleanup_indep:
  "fst (invocations (env\<lparr>os_remove := r, shutil_rmtree := t\<rparr>) request_data w) =
   fst (invocations env request_data w)"
  using invocations_try_cleanup_indep [where env=env and r=r and t=t and request_data=request_data and w=w]
  by (cases "invocations_try (env\<lparr>os_remove := r, shutil_rmtree := t\<rparr>) request_data w";
      cases "invocations_try env request_data w")
     (auto simp: invocations_def io_defs split: sum.splits)

text \<open>After the check of the two fields the handler answers 200 or 500, never 400.\<close>

lemma invocations_truthy_fields_not_400:
  assumes "dict_get data ''input_s3_uri'' JNull = Inr input_s3_uri"
    and "dict_get data ''output_s3_prefix'' JNull = Inr output_s3_prefix"
    and "\<not> py_not input_s3_uri" and "\<not> py_not output_s3_prefix"
  shows "http_status (invocations env (Inr data) w) \<noteq> Some 400"
proof -
  obtain kvs where d: "data = JObj kvs"
    using assms(1) by (cases data) (auto simp: dict_get_def)
  from d have s: "dict_get data ''session_id'' (JStr ''default'') =
      Inr (case map_of kvs ''session_id'' of None \<Rightarrow> JStr ''default'' | Some v \<Rightarrow> v)"
    by (simp add: dict_get_def)
  show ?thesis using assms s
    by (simp add: http_status_def invocations_def invocations_try_def io_defs download_file_def
          makedirs_def run_def listdir_def upload_file_def remove_file_def rmtree_def path_exists_def
          record_event_def cleanup_local_files_def fspath_def
          split: sum.splits prod.splits option.splits)
qed

lemma invocations_runs_tool:
  assumes "dict_get data ''input_s3_uri'' JNull = Inr input_s3_uri"
    and "dict_get data ''output_s3_prefix'' JNull = Inr output_s3_prefix"
    and "dict_get data ''session_id'' (JStr ''default'') = Inr (JStr session_id)"
    and "parse_s3_uri input_s3_uri = Inr (input_bucket, input_key)"
    and "parse_s3_uri output_s3_prefix = Inr (output_bucket, output_prefix)"
    and "local_input_path = path_join UPLOAD_DIR (basename input_key)"
    and "output_path = path_join OUTPUT_DIR session_id"
    and "s3_download_file env input_bucket input_key local_input_path = None"
    and "os_makedirs env output_path = None"
  shows "RunTool (demucs_cmd env output_path local_input_path)
           \<in> set (trace (snd (invocations env (Inr data) w)))"
proof -
  from assms(4,5) have t: "\<not> py_not input_s3_uri" "\<not> py_not output_s3_prefix"
    using parse_s3_uri_truthy by blast+
  show ?thesis using assms t
    by (auto simp: invocations_def invocations_try_def io_defs download_file_def makedirs_def
          run_def listdir_def path_exists_def record_event_def fspath_def
          split: sum.splits prod.splits
          elim!: cleanup_trace upload_loop_trace)
qed

lemma invocations_success_general:
  assumes "dict_get data ''input_s3_uri'' JNull = Inr input_s3_uri"
    and "dict_get data ''output_s3_prefix'' JNull = Inr output_s3_prefix"
    and "dict_get data ''session_id'' (JStr ''default'') = Inr (JStr session_id)"
    and "parse_s3_uri input_s3_uri = Inr (input_bucket, input_key)"
    and "parse_s3_uri output_s3_prefix = Inr (output_bucket, output_prefix)"
    and "local_input_path = path_join UPLOAD_DIR (basename input_key)"
    and "output_path = path_join OUTPUT_DIR session_id"
    and "s3_download_file env input_bucket input_key local_input_path = None"
    and "os_makedirs env output_path = None"
    and "subprocess_run env (demucs_cmd env output_path local_input_path) = Inr (result, effect)"
    and "returncode result = 0"
    and "separated_dir = path_join (path_join output_path ''htdemucs'') (path_stem (basename input_key))"
    and "effect (staged_disk (disk w) local_input_path output_path) separated_dir"
    and "os_listdir env separated_dir = Inr filenames"
    and "\<forall>f\<in>set filenames. s3_upload_file env (path_join separated_dir f) output_bucket
           (rstrip_slash output_prefix @ ''/'' @ session_id @ ''/'' @ f) = None"
  shows "fst (invocations env (Inr data) w) =
     Inr (JObj [(''status'', JStr ''success''),
                (''session_id'', JStr session_id),
                (''output_files'', JArr (map (\<lambda>filename.
                    JObj [(''filename'', JStr filename),
                          (''s3_uri'', JStr (''s3://'' @ output_bucket @ ''/'' @ rstrip_slash output_prefix
                                             @ ''/'' @ session_id @ ''/'' @ filename))]) filenames))], 200)"
proof -
  from assms(4,5) have t: "\<not> py_not input_s3_uri" "\<not> py_not output_s3_prefix"
    using parse_s3_uri_truthy by blast+
  from assms(13) have ex: "effect (\<lambda>q. ((disk w)(local_input_path := True)) q \<or> q = output_path \<or> is_under q output_path) separated_dir"
    by (simp add: staged_disk_def)
  have "fst (invocations_try env (Inr data) w) =
     Inr (JObj [(''status'', JStr ''success''),
                (''session_id'', JStr session_id),
                (''output_files'', JArr (map (\<lambda>filename.
                    JObj [(''filename'', JStr filename),
                          (''s3_uri'', JStr (''s3://'' @ output_bucket @ ''/'' @ rstrip_slash output_prefix
                                             @ ''/'' @ session_id @ ''/'' @ filename))]) filenames))], 200)"
    unfolding invocations_try_def Let_def
    using assms(1-12) assms(14,15) ex t
    by (simp add: bindE_liftE bindE_print bindE_download_ok bindE_makedirs_ok bindE_run_ok
          bindE_path_exists bindE_listdir_ok fst_upload_then_cleanup fspath_def)
  then show ?thesis
    unfolding invocations_def by (rule fst_try_except_Inr)
qed

text \<open>An exception of the body becomes the HTTP 500 response.\<close>

lemma invocations_500_of_raise:
  "fst (invocations_try env request_data w) = Inl e \<Longrightarrow>
   http_status (invocations env request_data w) = Some 500"
  by (cases "invocations_try env request_data w")
    (simp add: invocations_def http_status_def io_defs)

text \<open>
  A step that raises before the tool is started ends the request with HTTP 500; the trace
  shows what had been attempted by then.
\<close>

lemma invocations_stops_before_tool:
  assumes "dict_get data ''input_s3_uri'' JNull = Inr input_s3_uri"
    and "dict_get data ''output_s3_prefix'' JNull = Inr output_s3_prefix"
    and "\<not> py_not input_s3_uri" and "\<not> py_not output_s3_prefix"
  shows "(parse_s3_uri input_s3_uri = Inl e
          \<longrightarrow> http_status (invocations env (Inr data) w) = Some 500
              \<and> trace (snd (invocations env (Inr data) w)) = trace w)
       \<and> (parse_s3_uri input_s3_uri = Inr (input_bucket, input_key)
          \<and> parse_s3_uri output_s3_prefix = Inl e
          \<longrightarrow> http_status (invocations env (Inr data) w) = Some 500
              \<and> trace (snd (invocations env (Inr data) w)) = trace w)
       \<and> (parse_s3_uri input_s3_uri = Inr (input_bucket, input_key)
          \<and> parse_s3_uri output_s3_prefix = Inr (output_bucket, output_prefix)
          \<and> s3_download_file env input_bucket input_key (path_join UPLOAD_DIR (basename input_key)) = Some e
          \<longrightarrow> http_status (invocations env (Inr data) w) = Some 500
              \<and> trace (snd (invocations env (Inr data) w)) =
                  trace w @ [Download input_bucket input_key (path_join UPLOAD_DIR (basename input_key))])
       \<and> (parse_s3_uri input_s3_uri = Inr (input_bucket, input_key)
          \<and> parse_s3_uri output_s3_prefix = Inr (output_bucket, output_prefix)
          \<and> s3_download_file env input_bucket input_key (path_join UPLOAD_DIR (basename input_key)) = None
          \<and> dict_get data ''session_id'' (JStr ''default'') = Inr session_id_value
          \<and> fspath session_id_value = Inl e
          \<longrightarrow> http_status (invocations env (Inr data) w) = Some 500
              \<and> trace (snd (invocations env (Inr data) w)) =
                  trace w @ [Download input_bucket input_key (path_join UPLOAD_DIR (basename input_key))])
       \<and> (parse_s3_uri input_s3_uri = Inr (input_bucket, input_key)
          \<and> parse_s3_uri output_s3_prefix = Inr (output_bucket, output_prefix)
          \<and> s3_download_file env input_bucket input_key (path_join UPLOAD_DIR (basename input_key)) = None
          \<and> dict_get data ''session_id'' (JStr ''default'') = Inr (JStr session_id)
          \<and> os_makedirs env (path_join OUTPUT_DIR session_id) = Some e
          \<longrightarrow> http_status (invocations env (Inr data) w) = Some 500
              \<and> trace (snd (invocations env (Inr data) w)) =
                  trace w @ [Download input_bucket input_key (path_join UPLOAD_DIR (basename input_key)),
                             MakeDirs (path_join OUTPUT_DIR session_id)])"
proof -
  obtain kvs where d: "data = JObj kvs"
    using assms(1) by (cases data) (auto simp: dict_get_def)
  from d have s: "dict_get data ''session_id'' (JStr ''default'') =
      Inr (case map_of kvs ''session_id'' of None \<Rightarrow> JStr ''default'' | Some v \<Rightarrow> v)"
    by (simp add: dict_get_def)
  show ?thesis using assms s
    by (auto simp: http_status_def invocations_def invocations_try_def io_defs download_file_def
          makedirs_def record_event_def fspath_def)
qed

text \<open>An upload that raises ends the loop with that exception.\<close>

lemma upload_loop_some_fails:
  assumes "upload_loop env sd ob op sid fs acc w = (r, w')"
    and "\<exists>f\<in>set fs. s3_upload_file env (path_join sd f) ob (rstrip_slash op @ ''/'' @ sid @ ''/'' @ f) \<noteq> None"
  shows "\<exists>e. r = Inl e"
  using assms
proof (induction fs arbitrary: acc w)
  case Nil
  then show ?case by simp
next
  case (Cons f fs)
  show ?case
  proof (cases "s3_upload_file env (path_join sd f) ob (rstrip_slash op @ ''/'' @ sid @ ''/'' @ f)")
    case None
    with Cons.prems(1) have u: "upload_loop env sd ob op sid fs
        (acc @ [JObj [(''filename'', JStr f), (''s3_uri'', JStr (''s3://'' @ ob @ ''/'' @ rstrip_slash op @ ''/'' @ sid @ ''/'' @ f))]])
        (record_event (Upload (path_join sd f) ob (rstrip_slash op @ ''/'' @ sid @ ''/'' @ f))
           (w\<lparr>console := console w @ [''Uploading '' @ path_join sd f @ '' -> s3://'' @ ob @ ''/'' @ rstrip_slash op @ ''/'' @ sid @ ''/'' @ f]\<rparr>)) = (r, w')"
      by (simp add: io_defs upload_file_def)
    from None Cons.prems(2) have "\<exists>f\<in>set fs. s3_upload_file env (path_join sd f) ob (rstrip_slash op @ ''/'' @ sid @ ''/'' @ f) \<noteq> None"
      by auto
    with Cons.IH [OF u] show ?thesis by blast
  next
    case (Some e)
    with Cons.prems(1) show ?thesis by (auto simp: io_defs upload_file_def)
  qed
qed

lemma fst_upload_fails_then:
  assumes "\<exists>f\<in>set fs. s3_upload_file env (path_join sd f) ob (rstrip_slash op @ ''/'' @ sid @ ''/'' @ f) \<noteq> None"
  shows "\<exists>e. fst (bindE (upload_loop env sd ob op sid fs acc) k w) = Inl e"
proof -
  obtain r w' where u: "upload_loop env sd ob op sid fs acc w = (r, w')"
    by (cases "upload_loop env sd ob op sid fs acc w")
  from upload_loop_some_fails [OF u assms] obtain e where "r = Inl e" by blast
  with u show ?thesis by (simp add: bindE_def [of "upload_loop env sd ob op sid fs acc"])
qed

lemma invocations_upload_failure_general:
  assumes "dict_get data ''input_s3_uri'' JNull = Inr input_s3_uri"
    and "dict_get data ''output_s3_prefix'' JNull = Inr output_s3_prefix"
    and "dict_get data ''session_id'' (JStr ''default'') = Inr (JStr session_id)"
    and "parse_s3_uri input_s3_uri = Inr (input_bucket, input_key)"
    and "parse_s3_uri output_s3_prefix = Inr (output_bucket, output_prefix)"
    and "local_input_path = path_join UPLOAD_DIR (basename input_key)"
    and "output_path = path_join OUTPUT_DIR session_id"
    and "s3_download_file env input_bucket input_key local_input_path = None"
    and "os_makedirs env output_path = None"
    and "subprocess_run env (demucs_cmd env output_path local_input_path) = Inr (result, effect)"
    and "returncode result = 0"
    and "separated_dir = path_join (path_join output_path ''htdemucs'') (path_stem (basename input_key))"
    and "effect (staged_disk (disk w) local_input_path output_path) separated_dir"
    and "os_listdir env separated_dir = Inr filenames"
    and "\<exists>f\<in>set filenames. s3_upload_file env (path_join separated_dir f) output_bucket
           (rstrip_slash output_prefix @ ''/'' @ session_id @ ''/'' @ f) \<noteq> None"
  shows "http_status (invocations env (Inr data) w) = Some 500"
proof -
  from assms(4,5) have t: "\<not> py_not input_s3_uri" "\<not> py_not output_s3_prefix"
    using parse_s3_uri_truthy by blast+
  from assms(13) have ex: "effect (\<lambda>q. ((disk w)(local_input_path := True)) q \<or> q = output_path \<or> is_under q output_path) separated_dir"
    by (simp add: staged_disk_def)
  have "\<exists>e. fst (invocations_try env (Inr data) w) = Inl e"
    unfolding invocations_try_def Let_def
    using assms(1-12) assms(14) ex t fst_upload_fails_then [OF assms(15)]
    by (simp add: bindE_liftE bindE_print bindE_download_ok bindE_makedirs_ok bindE_run_ok
          bindE_path_exists bindE_listdir_ok fspath_def)
  then show ?thesis using invocations_500_of_raise by blast
qed

section \<open>The sample request\<close>

lemma sample_input_uri:
  "parse_s3_uri (JStr ''s3://in-bucket/songs/track.wav'') = Inr (''in-bucket'', ''songs/track.wav'')"
  by code_simp

lemma sample_output_uri:
  "parse_s3_uri (JStr ''s3://out-bucket/stems/'') = Inr (''out-bucket'', ''stems/'')"
  by code_simp

lemma sample_fields:
  "dict_get sample_data ''input_s3_uri'' JNull = Inr (JStr ''s3://in-bucket/songs/track.wav'')"
  "dict_get sample_data ''output_s3_prefix'' JNull = Inr (JStr ''s3://out-bucket/stems/'')"
  "dict_get sample_data ''session_id'' (JStr ''default'') = Inr (JStr ''abc'')"
  by (simp_all add: dict_get_def sample_data_def)

lemma sample_paths:
  "''/tmp/uploads/track.wav'' = path_join UPLOAD_DIR (basename ''songs/track.wav'')"
  "''/tmp/output/abc'' = path_join OUTPUT_DIR ''abc''"
  "''/tmp/output/abc/htdemucs/track'' =
     path_join (path_join ''/tmp/output/abc'' ''htdemucs'') (path_stem (basename ''songs/track.wav''))"
  by (simp_all add: path_defs)

lemma sample_success:
  "fst (invocations sample_env (Inr sample_data) initial_world) =
     Inr (JObj [(''status'', JStr ''success''),
                (''session_id'', JStr ''abc''),
                (''output_files'', JArr
                   [JObj [(''filename'', JStr ''vocals.wav''),
                          (''s3_uri'', JStr ''s3://out-bucket/stems/abc/vocals.wav'')],
                    JObj [(''filename'', JStr ''no_vocals.wav''),
                          (''s3_uri'', JStr ''s3://out-bucket/stems/abc/no_vocals.wav'')]])], 200)"
proof -
  have d: "s3_download_file sample_env ''in-bucket'' ''songs/track.wav'' ''/tmp/uploads/track.wav'' = None"
    by (simp add: sample_env_def)
  have m: "os_makedirs sample_env ''/tmp/output/abc'' = None"
    by (simp add: sample_env_def)
  have r: "subprocess_run sample_env (demucs_cmd sample_env ''/tmp/output/abc'' ''/tmp/uploads/track.wav'') =
     Inr (\<lparr>returncode = 0, stdout = ''done'', stderr = []\<rparr>,
             (\<lambda>d p. d p \<or> p = ''/tmp/output/abc/htdemucs''
                      \<or> p = ''/tmp/output/abc/htdemucs/track''
                      \<or> p = ''/tmp/output/abc/htdemucs/track/vocals.wav''
                      \<or> p = ''/tmp/output/abc/htdemucs/track/no_vocals.wav''))"
    by (simp add: sample_env_def)
  have z: "returncode \<lparr>returncode = 0, stdout = ''done'', stderr = []\<rparr> = 0" by simp
  have e: "(\<lambda>d p. d p \<or> p = ''/tmp/output/abc/htdemucs''
                      \<or> p = ''/tmp/output/abc/htdemucs/track''
                      \<or> p = ''/tmp/output/abc/htdemucs/track/vocals.wav''
                      \<or> p = ''/tmp/output/abc/htdemucs/track/no_vocals.wav'')
           (staged_disk (disk initial_world) ''/tmp/uploads/track.wav'' ''/tmp/output/abc'')
           ''/tmp/output/abc/htdemucs/track''"
    by simp
  have l: "os_listdir sample_env ''/tmp/output/abc/htdemucs/track'' = Inr [''vocals.wav'', ''no_vocals.wav'']"
    by (simp add: sample_env_def)
  have u: "\<forall>f\<in>set [''vocals.wav'', ''no_vocals.wav''].
       s3_upload_file sample_env (path_join ''/tmp/output/abc/htdemucs/track'' f) ''out-bucket''
         (rstrip_slash ''stems/'' @ ''/'' @ ''abc'' @ ''/'' @ f) = None"
    by (simp add: sample_env_def)
  have s: "rstrip_slash ''stems/'' = ''stems''" by (simp add: rstrip_slash_def)
  from invocations_success_general
    [OF sample_fields sample_input_uri sample_output_uri sample_paths(1,2) d m r z sample_paths(3) e l u]
  show ?thesis by (simp add: s)
qed

section \<open>The claims\<close>

text \<open>
  C1. The claim is that after every request, success or failure, the local input file
  and the per-session output directory are gone. The handler calls
  \<^verbatim>\<open>cleanup_local_files\<close> only as the last step of the success path. When the tool
  exits with a non-zero code the handler answers HTTP 500 and attempts no deletion: the
  downloaded file and the output directory are still on the disk.
\<close>

theorem invocations_failure_leaves_scratch_files:
  "http_status (invocations failed_tool_env (Inr sample_data) initial_world) = Some 500
   \<and> disk (snd (invocations failed_tool_env (Inr sample_data) initial_world)) ''/tmp/uploads/track.wav''
   \<and> disk (snd (invocations failed_tool_env (Inr sample_data) initial_world)) ''/tmp/output/abc''
   \<and> trace (snd (invocations failed_tool_env (Inr sample_data) initial_world)) =
       [Download ''in-bucket'' ''songs/track.wav'' ''/tmp/uploads/track.wav'',
        MakeDirs ''/tmp/output/abc'',
        RunTool [''/usr/bin/python3'', ''-m'', ''demucs.separate'', ''-n'', ''htdemucs'',
                 ''--two-stems'', ''vocals'', ''--name'', ''htdemucs'', ''-o'', ''/tmp/output/abc'',
                 ''/tmp/uploads/track.wav'']]"
  by (simp add: invocations_def invocations_try_def io_defs step_defs path_defs
        sample_input_uri sample_output_uri failed_tool_env_def sample_env_def sample_data_def
        initial_world_def http_status_def)

text \<open>The success path of the same request does delete both.\<close>

lemma sample_success_cleans_up:
  "\<not> disk (snd (invocations sample_env (Inr sample_data) initial_world)) ''/tmp/uploads/track.wav''
   \<and> \<not> disk (snd (invocations sample_env (Inr sample_data) initial_world)) ''/tmp/output/abc''
   \<and> trace (snd (invocations sample_env (Inr sample_data) initial_world)) =
       [Download ''in-bucket'' ''songs/track.wav'' ''/tmp/uploads/track.wav'',
        MakeDirs ''/tmp/output/abc'',
        RunTool [''/usr/bin/python3'', ''-m'', ''demucs.separate'', ''-n'', ''htdemucs'',
                 ''--two-stems'', ''vocals'', ''--name'', ''htdemucs'', ''-o'', ''/tmp/output/abc'',
                 ''/tmp/uploads/track.wav''],
        ListDir ''/tmp/output/abc/htdemucs/track'',
        Upload ''/tmp/output/abc/htdemucs/track/vocals.wav'' ''out-bucket'' ''stems/abc/vocals.wav'',
        Upload ''/tmp/output/abc/htdemucs/track/no_vocals.wav'' ''out-bucket'' ''stems/abc/no_vocals.wav'',
        Remove ''/tmp/uploads/track.wav'',
        RmTree ''/tmp/output/abc'']"
  by code_simp

text \<open>
  C2, as the claim states it, fails: with both fields present the download can fail, and
  then the handler answers HTTP 500 and the tool is never started.
\<close>

theorem invocations_download_failure_stops_before_tool:
  "dict_get sample_data ''input_s3_uri'' JNull = Inr (JStr ''s3://in-bucket/songs/track.wav'')
   \<and> dict_get sample_data ''output_s3_prefix'' JNull = Inr (JStr ''s3://out-bucket/stems/'')
   \<and> http_status (invocations failed_download_env (Inr sample_data) initial_world) = Some 500
   \<and> trace (snd (invocations failed_download_env (Inr sample_data) initial_world)) =
       [Download ''in-bucket'' ''songs/track.wav'' ''/tmp/uploads/track.wav'']"
  by (simp add: invocations_def invocations_try_def io_defs step_defs path_defs
        sample_input_uri sample_output_uri failed_download_env_def sample_env_def sample_data_def
        initial_world_def http_status_def)

text \<open>
  C2, amended. For a JSON object whose \<^verbatim>\<open>input_s3_uri\<close> and \<^verbatim>\<open>output_s3_prefix\<close>
  are truthy, no validation rejects the request (the answer is never HTTP 400); and when
  both URIs decompose, \<^verbatim>\<open>session_id\<close> is a string, and the download and the creation
  of the output directory succeed, the handler starts the tool. When instead a URI does
  not decompose, the download fails, \<^verbatim>\<open>session_id\<close> is not a string or the directory
  cannot be created, the request ends with HTTP 500 and the tool is not started: the
  trace gains at most the download and the creation of the directory.
\<close>

theorem invocations_reaches_tool:
  assumes "dict_get data ''input_s3_uri'' JNull = Inr input_s3_uri"
    and "dict_get data ''output_s3_prefix'' JNull = Inr output_s3_prefix"
    and "\<not> py_not input_s3_uri" and "\<not> py_not output_s3_prefix"
  shows "http_status (invocations env (Inr data) w) \<noteq> Some 400
       \<and> (dict_get data ''session_id'' (JStr ''default'') = Inr (JStr session_id)
          \<and> parse_s3_uri input_s3_uri = Inr (input_bucket, input_key)
          \<and> parse_s3_uri output_s3_prefix = Inr (output_bucket, output_prefix)
          \<and> s3_download_file env input_bucket input_key (path_join UPLOAD_DIR (basename input_key)) = None
          \<and> os_makedirs env (path_join OUTPUT_DIR session_id) = None
         \<longrightarrow> RunTool (demucs_cmd env (path_join OUTPUT_DIR session_id)
                        (path_join UPLOAD_DIR (basename input_key)))
               \<in> set (trace (snd (invocations env (Inr data) w))))
       \<and> (parse_s3_uri input_s3_uri = Inl e
          \<longrightarrow> http_status (invocations env (Inr data) w) = Some 500
              \<and> trace (snd (invocations env (Inr data) w)) = trace w)
       \<and> (parse_s3_uri input_s3_uri = Inr (input_bucket, input_key)
          \<and> parse_s3_uri output_s3_prefix = Inl e
          \<longrightarrow> http_status (invocations env (Inr data) w) = Some 500
              \<and> trace (snd (invocations env (Inr data) w)) = trace w)
       \<and> (parse_s3_uri input_s3_uri = Inr (input_bucket, input_key)
          \<and> parse_s3_uri output_s3_prefix = Inr (output_bucket, output_prefix)
          \<and> s3_download_file env input_bucket input_key (path_join UPLOAD_DIR (basename input_key)) = Some e
          \<longrightarrow> http_status (invocations env (Inr data) w) = Some 500
              \<and> trace (snd (invocations env (Inr data) w)) =
                  trace w @ [Download input_bucket input_key (path_join UPLOAD_DIR (basename input_key))])
       \<and> (parse_s3_uri input_s3_uri = Inr (input_bucket, input_key)
          \<and> parse_s3_uri output_s3_prefix = Inr (output_bucket, output_prefix)
          \<and> s3_download_file env input_bucket input_key (path_join UPLOAD_DIR (basename input_key)) = None
          \<and> dict_get data ''session_id'' (JStr ''default'') = Inr session_id_value
          \<and> fspath session_id_value = Inl e
          \<longrightarrow> http_status (invocations env (Inr data) w) = Some 500
              \<and> trace (snd (invocations env (Inr data) w)) =
                  trace w @ [Download input_bucket input_key (path_join UPLOAD_DIR (basename input_key))])
       \<and> (parse_s3_uri input_s3_uri = Inr (input_bucket, input_key)
          \<and> parse_s3_uri output_s3_prefix = Inr (output_bucket, output_prefix)
          \<and> s3_download_file env input_bucket input_key (path_join UPLOAD_DIR (basename input_key)) = None
          \<and> dict_get data ''session_id'' (JStr ''default'') = Inr (JStr session_id)
          \<and> os_makedirs env (path_join OUTPUT_DIR session_id) = Some e
          \<longrightarrow> http_status (invocations env (Inr data) w) = Some 500
              \<and> trace (snd (invocations env (Inr data) w)) =
                  trace w @ [Download input_bucket input_key (path_join UPLOAD_DIR (basename input_key)),
                             MakeDirs (path_join OUTPUT_DIR session_id)])"
proof -
  have a: "http_status (invocations env (Inr data) w) \<noteq> Some 400"
    by (rule invocations_truthy_fields_not_400 [OF assms])
  have b: "dict_get data ''session_id'' (JStr ''default'') = Inr (JStr session_id)
          \<and> parse_s3_uri input_s3_uri = Inr (input_bucket, input_key)
          \<and> parse_s3_uri output_s3_prefix = Inr (output_bucket, output_prefix)
          \<and> s3_download_file env input_bucket input_key (path_join UPLOAD_DIR (basename input_key)) = None
          \<and> os_makedirs env (path_join OUTPUT_DIR session_id) = None
         \<longrightarrow> RunTool (demucs_cmd env (path_join OUTPUT_DIR session_id)
                        (path_join UPLOAD_DIR (basename input_key)))
               \<in> set (trace (snd (invocations env (Inr data) w)))"
    using invocations_runs_tool [OF assms(1,2) _ _ _ refl refl] by blast
  from a b invocations_stops_before_tool [OF assms, of e env w input_bucket input_key
      output_bucket output_prefix session_id_value session_id]
  show ?thesis by (intro conjI) blast+
qed

theorem invocations_reaches_tool_witness:
  "\<not> py_not (JStr ''s3://in-bucket/songs/track.wav'')
   \<and> \<not> py_not (JStr ''s3://out-bucket/stems/'')
   \<and> http_status (invocations sample_env (Inr sample_data) initial_world) \<noteq> Some 400
   \<and> RunTool (demucs_cmd sample_env ''/tmp/output/abc'' ''/tmp/uploads/track.wav'')
        \<in> set (trace (snd (invocations sample_env (Inr sample_data) initial_world)))
   \<and> s3_download_file failed_download_env ''in-bucket'' ''songs/track.wav'' ''/tmp/uploads/track.wav''
        = Some (LibraryError ''ClientError'' ''Not Found'')
   \<and> http_status (invocations failed_download_env (Inr sample_data) initial_world) = Some 500
   \<and> trace (snd (invocations failed_download_env (Inr sample_data) initial_world)) =
        trace initial_world @ [Download ''in-bucket'' ''songs/track.wav'' ''/tmp/uploads/track.wav'']"
proof -
  have t: "\<not> py_not (JStr ''s3://in-bucket/songs/track.wav'')" "\<not> py_not (JStr ''s3://out-bucket/stems/'')"
    by simp_all
  have d: "s3_download_file sample_env ''in-bucket'' ''songs/track.wav''
             (path_join UPLOAD_DIR (basename ''songs/track.wav'')) = None"
    by (simp add: sample_env_def)
  have m: "os_makedirs sample_env (path_join OUTPUT_DIR ''abc'') = None"
    by (simp add: sample_env_def)
  have f: "s3_download_file failed_download_env ''in-bucket'' ''songs/track.wav''
             (path_join UPLOAD_DIR (basename ''songs/track.wav''))
           = Some (LibraryError ''ClientError'' ''Not Found'')"
    by (simp add: failed_download_env_def)
  from invocations_reaches_tool
    [OF sample_fields(1,2) t, where env = sample_env and w = initial_world and session_id = "''abc''"
       and input_bucket = "''in-bucket''" and input_key = "''songs/track.wav''"
       and output_bucket = "''out-bucket''" and output_prefix = "''stems/''"]
    sample_fields(3) sample_input_uri sample_output_uri d m
  have ok: "http_status (invocations sample_env (Inr sample_data) initial_world) \<noteq> Some 400
     \<and> RunTool (demucs_cmd sample_env (path_join OUTPUT_DIR ''abc'')
                  (path_join UPLOAD_DIR (basename ''songs/track.wav'')))
        \<in> set (trace (snd (invocations sample_env (Inr sample_data) initial_world)))"
    by blast
  from invocations_reaches_tool
    [OF sample_fields(1,2) t, where env = failed_download_env and w = initial_world
       and input_bucket = "''in-bucket''" and input_key = "''songs/track.wav''"
       and output_bucket = "''out-bucket''" and output_prefix = "''stems/''"
       and e = "LibraryError ''ClientError'' ''Not Found''"]
    sample_input_uri sample_output_uri f
  have ko: "http_status (invocations failed_download_env (Inr sample_data) initial_world) = Some 500
     \<and> trace (snd (invocations failed_download_env (Inr sample_data) initial_world)) =
        trace initial_world @ [Download ''in-bucket'' ''songs/track.wav''
                                 (path_join UPLOAD_DIR (basename ''songs/track.wav''))]"
    by blast
  from ok ko f t show ?thesis by (simp add: sample_paths [symmetric])
qed

text \<open>
  C3, as the claim states it, fails. The tool succeeds and leaves exactly
  \<^verbatim>\<open>vocals.wav\<close> and \<^verbatim>\<open>no_vocals.wav\<close>, but an upload fails: the answer is HTTP 500.
  And where all succeeds, an output prefix \<^verbatim>\<open>stems/\<close> does not appear as it is in the
  URIs: its trailing slash is stripped.
\<close>

theorem invocations_upload_failure_no_success:
  "subprocess_run failed_upload_env (demucs_cmd failed_upload_env ''/tmp/output/abc'' ''/tmp/uploads/track.wav'')
     = Inr (\<lparr>returncode = 0, stdout = ''done'', stderr = []\<rparr>,
             (\<lambda>d p. d p \<or> p = ''/tmp/output/abc/htdemucs''
                      \<or> p = ''/tmp/output/abc/htdemucs/track''
                      \<or> p = ''/tmp/output/abc/htdemucs/track/vocals.wav''
                      \<or> p = ''/tmp/output/abc/htdemucs/track/no_vocals.wav''))
   \<and> os_listdir failed_upload_env ''/tmp/output/abc/htdemucs/track'' = Inr [''vocals.wav'', ''no_vocals.wav'']
   \<and> http_status (invocations failed_upload_env (Inr sample_data) initial_world) = Some 500
   \<and> parse_s3_uri (JStr ''s3://out-bucket/stems/'') = Inr (''out-bucket'', ''stems/'')
   \<and> fst (invocations sample_env (Inr sample_data) initial_world) \<noteq>
       Inr (JObj [(''status'', JStr ''success''),
                (''session_id'', JStr ''abc''),
                (''output_files'', JArr
                   [JObj [(''filename'', JStr ''vocals.wav''),
                          (''s3_uri'', JStr ''s3://out-bucket/stems//abc/vocals.wav'')],
                    JObj [(''filename'', JStr ''no_vocals.wav''),
                          (''s3_uri'', JStr ''s3://out-bucket/stems//abc/no_vocals.wav'')]])], 200)"
proof -
  have h1: "subprocess_run failed_upload_env (demucs_cmd failed_upload_env ''/tmp/output/abc'' ''/tmp/uploads/track.wav'')
     = Inr (\<lparr>returncode = 0, stdout = ''done'', stderr = []\<rparr>,
             (\<lambda>d p. d p \<or> p = ''/tmp/output/abc/htdemucs''
                      \<or> p = ''/tmp/output/abc/htdemucs/track''
                      \<or> p = ''/tmp/output/abc/htdemucs/track/vocals.wav''
                      \<or> p = ''/tmp/output/abc/htdemucs/track/no_vocals.wav''))"
    by (simp add: failed_upload_env_def sample_env_def)
  have h2: "os_listdir failed_upload_env ''/tmp/output/abc/htdemucs/track'' = Inr [''vocals.wav'', ''no_vocals.wav'']"
    by (simp add: failed_upload_env_def sample_env_def)
  have h3: "http_status (invocations failed_upload_env (Inr sample_data) initial_world) = Some 500"
    by (simp add: invocations_def invocations_try_def io_defs step_defs path_defs
        sample_input_uri sample_output_uri failed_upload_env_def sample_env_def sample_data_def
        initial_world_def http_status_def)
  have h5: "fst (invocations sample_env (Inr sample_data) initial_world) \<noteq>
       Inr (JObj [(''status'', JStr ''success''),
                (''session_id'', JStr ''abc''),
                (''output_files'', JArr
                   [JObj [(''filename'', JStr ''vocals.wav''),
                          (''s3_uri'', JStr ''s3://out-bucket/stems//abc/vocals.wav'')],
                    JObj [(''filename'', JStr ''no_vocals.wav''),
                          (''s3_uri'', JStr ''s3://out-bucket/stems//abc/no_vocals.wav'')]])], 200)"
    by (simp add: sample_success)
  from h1 h2 h3 sample_output_uri h5 show ?thesis by (intro conjI)
qed

text \<open>
  C3, amended. When the tool exits with code 0 and its directory
  \<^verbatim>\<open><output_dir>/htdemucs/<input_filename_without_extension>\<close> lists exactly
  \<^verbatim>\<open>vocals.wav\<close> and \<^verbatim>\<open>no_vocals.wav\<close> (in either order), then: if both uploads succeed,
  the handler returns HTTP 200 with status \<^verbatim>\<open>success\<close> and one entry per file, in the
  order of the listing, whose \<^verbatim>\<open>s3_uri\<close> is
  \<^verbatim>\<open>s3://<output_bucket>/<output_prefix without trailing slashes>/<session_id>/<filename>\<close>;
  if an upload fails, the handler returns HTTP 500.
\<close>

theorem invocations_success_output_files:
  assumes "dict_get data ''input_s3_uri'' JNull = Inr input_s3_uri"
    and "dict_get data ''output_s3_prefix'' JNull = Inr output_s3_prefix"
    and "dict_get data ''session_id'' (JStr ''default'') = Inr (JStr session_id)"
    and "parse_s3_uri input_s3_uri = Inr (input_bucket, input_key)"
    and "parse_s3_uri output_s3_prefix = Inr (output_bucket, output_prefix)"
    and "local_input_path = path_join UPLOAD_DIR (basename input_key)"
    and "output_path = path_join OUTPUT_DIR session_id"
    and "s3_download_file env input_bucket input_key local_input_path = None"
    and "os_makedirs env output_path = None"
    and "subprocess_run env (demucs_cmd env output_path local_input_path) = Inr (result, effect)"
    and "returncode result = 0"
    and "separated_dir = path_join (path_join output_path ''htdemucs'') (path_stem (basename input_key))"
    and "effect (staged_disk (disk w) local_input_path output_path) separated_dir"
    and "os_listdir env separated_dir = Inr filenames"
    and "filenames = [''vocals.wav'', ''no_vocals.wav''] \<or> filenames = [''no_vocals.wav'', ''vocals.wav'']"
  shows "((\<forall>f\<in>set filenames. s3_upload_file env (path_join separated_dir f) output_bucket
              (rstrip_slash output_prefix @ ''/'' @ session_id @ ''/'' @ f) = None)
          \<longrightarrow> fst (invocations env (Inr data) w) =
     Inr (JObj [(''status'', JStr ''success''),
                (''session_id'', JStr session_id),
                (''output_files'', JArr (map (\<lambda>filename.
                    JObj [(''filename'', JStr filename),
                          (''s3_uri'', JStr (''s3://'' @ output_bucket @ ''/'' @ rstrip_slash output_prefix
                                             @ ''/'' @ session_id @ ''/'' @ filename))]) filenames))], 200))
       \<and> ((\<exists>f\<in>set filenames. s3_upload_file env (path_join separated_dir f) output_bucket
              (rstrip_slash output_prefix @ ''/'' @ session_id @ ''/'' @ f) \<noteq> None)
          \<longrightarrow> http_status (invocations env (Inr data) w) = Some 500)"
proof (intro conjI impI)
  assume "\<forall>f\<in>set filenames. s3_upload_file env (path_join separated_dir f) output_bucket
              (rstrip_slash output_prefix @ ''/'' @ session_id @ ''/'' @ f) = None"
  with assms(1-14) show "fst (invocations env (Inr data) w) =
     Inr (JObj [(''status'', JStr ''success''),
                (''session_id'', JStr session_id),
                (''output_files'', JArr (map (\<lambda>filename.
                    JObj [(''filename'', JStr filename),
                          (''s3_uri'', JStr (''s3://'' @ output_bucket @ ''/'' @ rstrip_slash output_prefix
                                             @ ''/'' @ session_id @ ''/'' @ filename))]) filenames))], 200)"
    by (rule invocations_success_general)
next
  assume "\<exists>f\<in>set filenames. s3_upload_file env (path_join separated_dir f) output_bucket
              (rstrip_slash output_prefix @ ''/'' @ session_id @ ''/'' @ f) \<noteq> None"
  with assms(1-14) show "http_status (invocations env (Inr data) w) = Some 500"
    by (rule invocations_upload_failure_general)
qed

theorem invocations_success_output_files_witness:
  "os_listdir sample_env ''/tmp/output/abc/htdemucs/track'' = Inr [''vocals.wav'', ''no_vocals.wav'']
   \<and> fst (invocations sample_env (Inr sample_data) initial_world) =
     Inr (JObj [(''status'', JStr ''success''),
                (''session_id'', JStr ''abc''),
                (''output_files'', JArr
                   [JObj [(''filename'', JStr ''vocals.wav''),
                          (''s3_uri'', JStr ''s3://out-bucket/stems/abc/vocals.wav'')],
                    JObj [(''filename'', JStr ''no_vocals.wav''),
                          (''s3_uri'', JStr ''s3://out-bucket/stems/abc/no_vocals.wav'')]])], 200)
   \<and> s3_upload_file failed_upload_env ''/tmp/output/abc/htdemucs/track/vocals.wav'' ''out-bucket''
        ''stems/abc/vocals.wav'' \<noteq> None
   \<and> http_status (invocations failed_upload_env (Inr sample_data) initial_world) = Some 500"
proof -
  let ?effect = "\<lambda>d p. d p \<or> p = ''/tmp/output/abc/htdemucs''
                      \<or> p = ''/tmp/output/abc/htdemucs/track''
                      \<or> p = ''/tmp/output/abc/htdemucs/track/vocals.wav''
                      \<or> p = ''/tmp/output/abc/htdemucs/track/no_vocals.wav''"
  have d: "s3_download_file sample_env ''in-bucket'' ''songs/track.wav'' ''/tmp/uploads/track.wav'' = None"
    by (simp add: sample_env_def)
  have m: "os_makedirs sample_env ''/tmp/output/abc'' = None"
    by (simp add: sample_env_def)
  have r: "subprocess_run sample_env (demucs_cmd sample_env ''/tmp/output/abc'' ''/tmp/uploads/track.wav'') =
     Inr (\<lparr>returncode = 0, stdout = ''done'', stderr = []\<rparr>, ?effect)"
    by (simp add: sample_env_def)
  have z: "returncode \<lparr>returncode = 0, stdout = ''done'', stderr = []\<rparr> = 0" by simp
  have e: "?effect (staged_disk (disk initial_world) ''/tmp/uploads/track.wav'' ''/tmp/output/abc'')
           ''/tmp/output/abc/htdemucs/track''"
    by simp
  have l: "os_listdir sample_env ''/tmp/output/abc/htdemucs/track'' = Inr [''vocals.wav'', ''no_vocals.wav'']"
    by (simp add: sample_env_def)
  have o: "[''vocals.wav'', ''no_vocals.wav''] = [''vocals.wav'', ''no_vocals.wav'']
         \<or> [''vocals.wav'', ''no_vocals.wav''] = [''no_vocals.wav'', ''vocals.wav'']"
    by simp
  have u: "\<forall>f\<in>set [''vocals.wav'', ''no_vocals.wav''].
       s3_upload_file sample_env (path_join ''/tmp/output/abc/htdemucs/track'' f) ''out-bucket''
         (rstrip_slash ''stems/'' @ ''/'' @ ''abc'' @ ''/'' @ f) = None"
    by (simp add: sample_env_def)
  have s: "rstrip_slash ''stems/'' = ''stems''" by (simp add: rstrip_slash_def)
  from invocations_success_output_files
    [OF sample_fields sample_input_uri sample_output_uri sample_paths(1,2) d m r z sample_paths(3) e l o]
    u
  have ok: "fst (invocations sample_env (Inr sample_data) initial_world) =
     Inr (JObj [(''status'', JStr ''success''),
                (''session_id'', JStr ''abc''),
                (''output_files'', JArr
                   [JObj [(''filename'', JStr ''vocals.wav''),
                          (''s3_uri'', JStr ''s3://out-bucket/stems/abc/vocals.wav'')],
                    JObj [(''filename'', JStr ''no_vocals.wav''),
                          (''s3_uri'', JStr ''s3://out-bucket/stems/abc/no_vocals.wav'')]])], 200)"
    by (simp add: s)
  have d': "s3_download_file failed_upload_env ''in-bucket'' ''songs/track.wav'' ''/tmp/uploads/track.wav'' = None"
    by (simp add: failed_upload_env_def sample_env_def)
  have m': "os_makedirs failed_upload_env ''/tmp/output/abc'' = None"
    by (simp add: failed_upload_env_def sample_env_def)
  have r': "subprocess_run failed_upload_env
              (demucs_cmd failed_upload_env ''/tmp/output/abc'' ''/tmp/uploads/track.wav'') =
     Inr (\<lparr>returncode = 0, stdout = ''done'', stderr = []\<rparr>, ?effect)"
    by (simp add: failed_upload_env_def sample_env_def)
  have l': "os_listdir failed_upload_env ''/tmp/output/abc/htdemucs/track'' = Inr [''vocals.wav'', ''no_vocals.wav'']"
    by (simp add: failed_upload_env_def sample_env_def)
  have u': "\<exists>f\<in>set [''vocals.wav'', ''no_vocals.wav''].
       s3_upload_file failed_upload_env (path_join ''/tmp/output/abc/htdemucs/track'' f) ''out-bucket''
         (rstrip_slash ''stems/'' @ ''/'' @ ''abc'' @ ''/'' @ f) \<noteq> None"
    by (auto simp: failed_upload_env_def)
  have v: "s3_upload_file failed_upload_env ''/tmp/output/abc/htdemucs/track/vocals.wav'' ''out-bucket''
        ''stems/abc/vocals.wav'' \<noteq> None"
    by (simp add: failed_upload_env_def)
  from invocations_success_output_files
    [OF sample_fields sample_input_uri sample_output_uri sample_paths(1,2) d' m' r' z sample_paths(3) e l' o]
    u'
  have ko: "http_status (invocations failed_upload_env (Inr sample_data) initial_world) = Some 500"
    by blast
  from l ok v ko show ?thesis by (intro conjI)
qed

text \<open>
  C4. When the tool exits with a non-zero code, the handler returns HTTP 500 and the
  \<^verbatim>\<open>error\<close> field of the body contains the captured standard error of the tool.
\<close>

theorem invocations_tool_failure_500:
  assumes "dict_get data ''input_s3_uri'' JNull = Inr input_s3_uri"
    and "dict_get data ''output_s3_prefix'' JNull = Inr output_s3_prefix"
    and "dict_get data ''session_id'' (JStr ''default'') = Inr (JStr session_id)"
    and "parse_s3_uri input_s3_uri = Inr (input_bucket, input_key)"
    and "parse_s3_uri output_s3_prefix = Inr (output_bucket, output_prefix)"
    and "local_input_path = path_join UPLOAD_DIR (basename input_key)"
    and "output_path = path_join OUTPUT_DIR session_id"
    and "s3_download_file env input_bucket input_key local_input_path = None"
    and "os_makedirs env output_path = None"
    and "subprocess_run env (demucs_cmd env output_path local_input_path) = Inr (result, effect)"
    and "returncode result \<noteq> 0"
  shows "fst (invocations env (Inr data) w) =
           Inr (JObj [(''error'',
                  JStr (''Error: Demucs failed'' @ newline @ stderr result @ newline
                        @ format_exc env (RuntimeError (''Demucs failed'' @ newline @ stderr result))))],
                500)
       \<and> sublist (stderr result)
            (''Error: Demucs failed'' @ newline @ stderr result @ newline
             @ format_exc env (RuntimeError (''Demucs failed'' @ newline @ stderr result)))"
proof -
  from assms(4,5) have t: "\<not> py_not input_s3_uri" "\<not> py_not output_s3_prefix"
    using parse_s3_uri_truthy by blast+
  have "sublist (stderr result)
            ((''Error: Demucs failed'' @ newline) @ stderr result @ (newline
             @ format_exc env (RuntimeError (''Demucs failed'' @ newline @ stderr result))))"
    by (rule sublist_appendI)
  moreover have "fst (invocations env (Inr data) w) =
           Inr (JObj [(''error'',
                  JStr (''Error: Demucs failed'' @ newline @ stderr result @ newline
                        @ format_exc env (RuntimeError (''Demucs failed'' @ newline @ stderr result))))],
                500)"
    using assms t
    by (simp add: invocations_def invocations_try_def io_defs fspath_def download_file_def
         makedirs_def run_def)
  ultimately show ?thesis by simp
qed

theorem invocations_tool_failure_500_witness:
  "returncode \<lparr>returncode = 1, stdout = [], stderr = ''cannot load track''\<rparr> \<noteq> 0
   \<and> fst (invocations failed_tool_env (Inr sample_data) initial_world) =
       Inr (JObj [(''error'',
              JStr (''Error: Demucs failed'' @ newline @ ''cannot load track'' @ newline
                    @ format_exc failed_tool_env
                        (RuntimeError (''Demucs failed'' @ newline @ ''cannot load track''))))],
            500)
   \<and> sublist ''cannot load track''
        (''Error: Demucs failed'' @ newline @ ''cannot load track'' @ newline
         @ format_exc failed_tool_env (RuntimeError (''Demucs failed'' @ newline @ ''cannot load track'')))"
proof -
  have d: "s3_download_file failed_tool_env ''in-bucket'' ''songs/track.wav'' ''/tmp/uploads/track.wav'' = None"
    by (simp add: failed_tool_env_def sample_env_def)
  have m: "os_makedirs failed_tool_env ''/tmp/output/abc'' = None"
    by (simp add: failed_tool_env_def sample_env_def)
  have r: "subprocess_run failed_tool_env
             (demucs_cmd failed_tool_env ''/tmp/output/abc'' ''/tmp/uploads/track.wav'') =
           Inr (\<lparr>returncode = 1, stdout = [], stderr = ''cannot load track''\<rparr>, (\<lambda>d. d))"
    by (simp add: failed_tool_env_def)
  have z: "returncode \<lparr>returncode = 1, stdout = [], stderr = ''cannot load track''\<rparr> \<noteq> 0"
    by simp
  from invocations_tool_failure_500
    [OF sample_fields sample_input_uri sample_output_uri sample_paths(1,2) d m r z, of initial_world]
  show ?thesis by simp
qed

text \<open>
  C6. For a URI \<^verbatim>\<open>s3://bucket/key\<close> whose key holds the text \<^verbatim>\<open>s3://\<close> again, the
  function does not return \<^verbatim>\<open>(bucket, key)\<close>: at \<^verbatim>\<open>s3://bucket/path/to/s3://object.wav\<close>
  it returns the key \<^verbatim>\<open>path/to/object.wav\<close>, which names another object.
\<close>

theorem parse_s3_uri_inner_scheme_dropped:
  "parse_s3_uri (JStr ''s3://bucket/path/to/s3://object.wav'') = Inr (''bucket'', ''path/to/object.wav'')"
  by code_simp

text \<open>
  C10. The replacement removes the scheme text wherever it occurs: with a second
  occurrence inside the key, the key that is returned lacks it. Hence, whenever the key
  obtained by stripping only a leading scheme and splitting at the first slash contains
  \<^verbatim>\<open>s3://\<close>, the function does not return that bucket and key.
\<close>

theorem parse_s3_uri_removes_every_scheme:
  "(CHR ''/'' \<notin> set bucket \<and> \<not> sublist ''s3://'' (bucket @ ''/'' @ k1)
      \<longrightarrow> parse_s3_uri (JStr (''s3://'' @ bucket @ ''/'' @ k1 @ ''s3://'' @ k2))
            = Inr (bucket, k1 @ py_replace ''s3://'' [] k2))
   \<and> (strip_scheme_then_split uri = Some (b, k) \<and> sublist ''s3://'' k
      \<longrightarrow> parse_s3_uri (JStr uri) \<noteq> Inr (b, k))"
proof (intro conjI impI)
  assume a: "CHR ''/'' \<notin> set bucket \<and> \<not> sublist ''s3://'' (bucket @ ''/'' @ k1)"
  have "py_replace ''s3://'' [] (''s3://'' @ bucket @ ''/'' @ k1 @ ''s3://'' @ k2)
        = py_replace ''s3://'' [] ((bucket @ ''/'' @ k1) @ ''s3://'' @ k2)"
    using py_replace_prefix [of "''s3://''" "[]" "(bucket @ ''/'' @ k1) @ ''s3://'' @ k2"] by simp
  also have "\<dots> = py_replace ''s3://'' [] (bucket @ ''/'' @ k1) @ py_replace ''s3://'' [] k2"
    by (rule py_replace_scheme_append)
  also have "\<dots> = (bucket @ ''/'' @ k1) @ py_replace ''s3://'' [] k2"
    using a by (simp add: py_replace_id)
  finally show "parse_s3_uri (JStr (''s3://'' @ bucket @ ''/'' @ k1 @ ''s3://'' @ k2))
            = Inr (bucket, k1 @ py_replace ''s3://'' [] k2)"
    using a by (simp only: parse_s3_uri_Inr_iff) simp
next
  assume a: "strip_scheme_then_split uri = Some (b, k) \<and> sublist ''s3://'' k"
  let ?P = "\<lambda>c. c \<noteq> CHR ''/''"
  define rest where "rest = (if prefix ''s3://'' uri then drop 5 uri else uri)"
  from a have sl: "CHR ''/'' \<in> set rest"
    and b: "b = takeWhile ?P rest"
    and k: "k = tl (dropWhile ?P rest)"
    by (auto simp: strip_scheme_then_split_def rest_def Let_def split: if_splits)
  from sl have "dropWhile ?P rest \<noteq> []" by simp
  then have "dropWhile ?P rest = hd (dropWhile ?P rest) # k"
    unfolding k by simp
  then have "length rest = length b + 1 + length k"
    unfolding b using takeWhile_dropWhile_id [of ?P rest]
    by (metis One_nat_def add.assoc length_Cons length_append plus_1_eq_Suc)
  moreover have "sublist ''s3://'' rest"
  proof -
    from a have "sublist ''s3://'' (dropWhile ?P rest)"
      unfolding k using sublist_order.order_trans sublist_tl by blast
    then show ?thesis using sublist_order.order_trans sublist_dropWhile by blast
  qed
  moreover have "py_replace ''s3://'' [] uri = py_replace ''s3://'' [] rest"
  proof (cases "prefix ''s3://'' uri")
    case True
    then obtain r where "uri = ''s3://'' @ r" by (auto simp: prefix_def)
    then show ?thesis using py_replace_prefix [of "''s3://''" "[]" r] by (simp add: rest_def)
  next
    case False
    then show ?thesis by (simp add: rest_def)
  qed
  ultimately have "length (py_replace ''s3://'' [] uri) < length b + 1 + length k"
    using py_replace_length_less [of "''s3://''" rest] by simp
  then show "parse_s3_uri (JStr uri) \<noteq> Inr (b, k)"
    by (auto simp only: parse_s3_uri_Inr_iff) simp
qed

theorem parse_s3_uri_removes_every_scheme_witness:
  "parse_s3_uri (JStr ''s3://bucket/a/s3://b.wav'') = Inr (''bucket'', ''a/b.wav'')
   \<and> strip_scheme_then_split ''s3://bucket/a/s3://b.wav'' = Some (''bucket'', ''a/s3://b.wav'')
   \<and> parse_s3_uri (JStr ''s3://bucket/a/s3://b.wav'') \<noteq> Inr (''bucket'', ''a/s3://b.wav'')"
proof -
  have h1: "CHR ''/'' \<notin> set ''bucket'' \<and> \<not> sublist ''s3://'' (''bucket'' @ ''/'' @ ''a/'')"
    by code_simp
  have h2: "strip_scheme_then_split ''s3://bucket/a/s3://b.wav'' = Some (''bucket'', ''a/s3://b.wav'')"
    by code_simp
  have h3: "sublist ''s3://'' ''a/s3://b.wav''"
    by code_simp
  have r: "py_replace ''s3://'' [] ''b.wav'' = ''b.wav''"
    by code_simp
  from parse_s3_uri_removes_every_scheme
    [of "''bucket''" "''a/''" "''b.wav''" "''s3://bucket/a/s3://b.wav''" "''bucket''" "''a/s3://b.wav''"]
    h1 h2 h3 r
  show ?thesis by simp
qed

text \<open>
  C5, as the claim states it, fails: a body that parses to a JSON value other than an
  object, such as \<^verbatim>\<open>[]\<close>, has neither field, but \<^verbatim>\<open>data.get\<close> raises
  \<^verbatim>\<open>AttributeError\<close> on it and the handler answers HTTP 500.
\<close>

theorem invocations_non_object_body_500:
  "dict_get (JArr []) ''input_s3_uri'' JNull =
     Inl (AttributeError ([CHR 0x27] @ ''list'' @ [CHR 0x27] @ '' object has no attribute ''
                          @ [CHR 0x27] @ ''get'' @ [CHR 0x27]))
   \<and> http_status (invocations sample_env (Inr (JArr [])) initial_world) = Some 500
   \<and> trace (snd (invocations sample_env (Inr (JArr [])) initial_world)) = []"
  by (simp add: invocations_def invocations_try_def io_defs dict_get_def no_attribute_def
        http_status_def initial_world_def)

text \<open>
  C5, amended. A request whose body parses to a JSON object that lacks
  \<^verbatim>\<open>input_s3_uri\<close> or lacks \<^verbatim>\<open>output_s3_prefix\<close> is answered with HTTP 400 and a
  body with the key \<^verbatim>\<open>error\<close>; the world is as before, so nothing was downloaded, run
  or uploaded.
\<close>

theorem invocations_missing_field_400:
  assumes "request_data = Inr (JObj kvs)"
    and "map_of kvs ''input_s3_uri'' = None \<or> map_of kvs ''output_s3_prefix'' = None"
  shows "invocations env request_data w =
           (Inr (JObj [(''error'', JStr ''Missing input_s3_uri or output_s3_prefix'')], 400), w)"
  using assms
  by (auto simp: invocations_def invocations_try_def io_defs dict_get_def split: option.splits)

theorem invocations_missing_field_400_witness:
  "map_of [(''input_s3_uri'', JStr ''s3://in-bucket/songs/track.wav'')] ''output_s3_prefix'' = None
   \<and> invocations sample_env (Inr (JObj [(''input_s3_uri'', JStr ''s3://in-bucket/songs/track.wav'')]))
        initial_world =
       (Inr (JObj [(''error'', JStr ''Missing input_s3_uri or output_s3_prefix'')], 400), initial_world)"
proof -
  have h: "map_of [(''input_s3_uri'', JStr ''s3://in-bucket/songs/track.wav'')] ''output_s3_prefix'' = None"
    by simp
  with invocations_missing_field_400
    [of "Inr (JObj [(''input_s3_uri'', JStr ''s3://in-bucket/songs/track.wav'')])"
        "[(''input_s3_uri'', JStr ''s3://in-bucket/songs/track.wav'')]" sample_env initial_world]
  show ?thesis by blast
qed

text \<open>
  C9. A request whose JSON object has \<^verbatim>\<open>input_s3_uri\<close> or \<^verbatim>\<open>output_s3_prefix\<close>
  with a falsy value (the empty string, \<^verbatim>\<open>null\<close>, \<^verbatim>\<open>false\<close>, zero, an empty list or
  object) is answered like one that lacks the field: HTTP 400, and nothing is done.
\<close>

theorem invocations_falsy_field_400:
  assumes "request_data = Inr (JObj kvs)"
    and "(map_of kvs ''input_s3_uri'' = Some v \<and> py_not v)
       \<or> (map_of kvs ''output_s3_prefix'' = Some v \<and> py_not v)"
  shows "invocations env request_data w =
           (Inr (JObj [(''error'', JStr ''Missing input_s3_uri or output_s3_prefix'')], 400), w)"
  using assms
  by (auto simp: invocations_def invocations_try_def io_defs dict_get_def split: option.splits)

theorem invocations_falsy_field_400_witness:
  "map_of [(''input_s3_uri'', JStr []), (''output_s3_prefix'', JStr ''s3://out-bucket/stems/'')]
      ''input_s3_uri'' = Some (JStr [])
   \<and> py_not (JStr [])
   \<and> invocations sample_env
        (Inr (JObj [(''input_s3_uri'', JStr []), (''output_s3_prefix'', JStr ''s3://out-bucket/stems/'')]))
        initial_world =
       (Inr (JObj [(''error'', JStr ''Missing input_s3_uri or output_s3_prefix'')], 400), initial_world)"
proof -
  have h: "map_of [(''input_s3_uri'', JStr []), (''output_s3_prefix'', JStr ''s3://out-bucket/stems/'')]
             ''input_s3_uri'' = Some (JStr []) \<and> py_not (JStr [])"
    by simp
  with invocations_falsy_field_400
    [of "Inr (JObj [(''input_s3_uri'', JStr []), (''output_s3_prefix'', JStr ''s3://out-bucket/stems/'')])"
        "[(''input_s3_uri'', JStr []), (''output_s3_prefix'', JStr ''s3://out-bucket/stems/'')]"
        "JStr []" sample_env initial_world]
  show ?thesis by blast
qed

text \<open>
  C7. When a location URI has no slash after the bucket, \<^verbatim>\<open>parse_s3_uri\<close> raises
  \<^verbatim>\<open>IndexError\<close> (it is no check of the handler's); the handler answers with HTTP 500
  and the message of that exception, and has done no I/O. This holds when the input URI
  is such a URI, and when the input URI decomposes and the output URI is such a URI.
\<close>

theorem invocations_uri_without_key_500:
  assumes "CHR ''/'' \<notin> set bucket"
    and "uri = ''s3://'' @ bucket \<or> (uri = bucket \<and> bucket \<noteq> [])"
    and "dict_get data ''input_s3_uri'' JNull = Inr input"
    and "dict_get data ''output_s3_prefix'' JNull = Inr output"
    and "(input = JStr uri \<and> \<not> py_not output)
       \<or> (parse_s3_uri input = Inr (b, k) \<and> output = JStr uri)"
  shows "parse_s3_uri (JStr uri) = Inl (IndexError ''list index out of range'')
       \<and> fst (invocations env (Inr data) w) =
           Inr (JObj [(''error'', JStr (''Error: list index out of range'' @ newline
                         @ format_exc env (IndexError ''list index out of range'')))], 500)
       \<and> trace (snd (invocations env (Inr data) w)) = trace w
       \<and> disk (snd (invocations env (Inr data) w)) = disk w"
proof -
  from assms(1,2) have p: "parse_s3_uri (JStr uri) = Inl (IndexError ''list index out of range'')"
    using parse_s3_uri_no_separator by blast
  from assms(2) have t: "\<not> py_not (JStr uri)" by auto
  obtain kvs where d: "data = JObj kvs"
    using assms(3) by (cases data) (auto simp: dict_get_def)
  from d have s: "dict_get data ''session_id'' (JStr ''default'') =
      Inr (case map_of kvs ''session_id'' of None \<Rightarrow> JStr ''default'' | Some v \<Rightarrow> v)"
    by (simp add: dict_get_def)
  from assms(5) show ?thesis
  proof
    assume a: "input = JStr uri \<and> \<not> py_not output"
    with p t assms(3,4) s show ?thesis
      by (simp add: invocations_def invocations_try_def io_defs)
  next
    assume a: "parse_s3_uri input = Inr (b, k) \<and> output = JStr uri"
    then have "\<not> py_not input" using parse_s3_uri_truthy by blast
    with a p t assms(3,4) s show ?thesis
      by (simp add: invocations_def invocations_try_def io_defs)
  qed
qed

theorem invocations_uri_without_key_500_witness:
  "CHR ''/'' \<notin> set ''in-bucket''
   \<and> dict_get (JObj [(''input_s3_uri'', JStr ''s3://in-bucket''), (''output_s3_prefix'', JStr ''s3://out-bucket/stems/'')])
        ''input_s3_uri'' JNull = Inr (JStr ''s3://in-bucket'')
   \<and> \<not> py_not (JStr ''s3://out-bucket/stems/'')
   \<and> parse_s3_uri (JStr ''s3://in-bucket'') = Inl (IndexError ''list index out of range'')
   \<and> fst (invocations sample_env
        (Inr (JObj [(''input_s3_uri'', JStr ''s3://in-bucket''), (''output_s3_prefix'', JStr ''s3://out-bucket/stems/'')]))
        initial_world) =
       Inr (JObj [(''error'', JStr (''Error: list index out of range'' @ newline
                     @ format_exc sample_env (IndexError ''list index out of range'')))], 500)
   \<and> trace (snd (invocations sample_env
        (Inr (JObj [(''input_s3_uri'', JStr ''s3://in-bucket''), (''output_s3_prefix'', JStr ''s3://out-bucket/stems/'')]))
        initial_world)) = trace initial_world"
proof -
  let ?data = "JObj [(''input_s3_uri'', JStr ''s3://in-bucket''), (''output_s3_prefix'', JStr ''s3://out-bucket/stems/'')]"
  have h1: "CHR ''/'' \<notin> set ''in-bucket''" by simp
  have h2: "''s3://in-bucket'' = ''s3://'' @ ''in-bucket'' \<or> (''s3://in-bucket'' = ''in-bucket'' \<and> ''in-bucket'' \<noteq> [])" by simp
  have h3: "dict_get ?data ''input_s3_uri'' JNull = Inr (JStr ''s3://in-bucket'')" by (simp add: dict_get_def)
  have h4: "dict_get ?data ''output_s3_prefix'' JNull = Inr (JStr ''s3://out-bucket/stems/'')" by (simp add: dict_get_def)
  have h5: "(JStr ''s3://in-bucket'' = JStr ''s3://in-bucket'' \<and> \<not> py_not (JStr ''s3://out-bucket/stems/''))
       \<or> (parse_s3_uri (JStr ''s3://in-bucket'') = Inr ([], []) \<and> JStr ''s3://out-bucket/stems/'' = JStr ''s3://in-bucket'')" by simp
  from invocations_uri_without_key_500 [OF h1 h2 h3 h4 h5, of sample_env initial_world] h1 h3
  show ?thesis by simp
qed

text \<open>
  C8. \<^verbatim>\<open>cleanup_local_files\<close> never raises; the response of the handler is the same
  whatever the two deletions do, so a failed cleanup leaves the success payload and the
  HTTP 200 as they are; and an exception of \<^verbatim>\<open>os.remove\<close> or of \<^verbatim>\<open>shutil.rmtree\<close> is
  printed as \<^verbatim>\<open>Cleanup failed: ...\<close>.
\<close>

theorem cleanup_failure_never_changes_response:
  "fst (cleanup_local_files env input_path output_path w) = Inr ()
   \<and> fst (invocations (env\<lparr>os_remove := r, shutil_rmtree := t\<rparr>) request_data w) =
       fst (invocations env request_data w)
   \<and> (disk w input_path \<and> os_remove env input_path = Some e
        \<longrightarrow> console (snd (cleanup_local_files env input_path output_path w)) =
            console w @ [''Cleanup failed: '' @ str_exn e])
   \<and> ((disk w input_path \<longrightarrow> os_remove env input_path = None)
        \<and> disk w output_path \<and> output_path \<noteq> input_path
        \<and> shutil_rmtree env output_path = Some e
        \<longrightarrow> console (snd (cleanup_local_files env input_path output_path w)) =
            console w @ [''Cleanup failed: '' @ str_exn e])"
proof (intro conjI impI)
  show "fst (cleanup_local_files env input_path output_path w) = Inr ()"
    by (rule cleanup_never_raises)
  show "fst (invocations (env\<lparr>os_remove := r, shutil_rmtree := t\<rparr>) request_data w) =
       fst (invocations env request_data w)"
    by (rule invocations_cleanup_indep)
  show "console (snd (cleanup_local_files env input_path output_path w)) =
            console w @ [''Cleanup failed: '' @ str_exn e]"
    if "disk w input_path \<and> os_remove env input_path = Some e"
    using that
    by (simp add: cleanup_local_files_def io_defs path_exists_def remove_file_def record_event_def)
  show "console (snd (cleanup_local_files env input_path output_path w)) =
            console w @ [''Cleanup failed: '' @ str_exn e]"
    if "(disk w input_path \<longrightarrow> os_remove env input_path = None)
        \<and> disk w output_path \<and> output_path \<noteq> input_path
        \<and> shutil_rmtree env output_path = Some e"
    using that
    by (cases "disk w input_path")
      (simp_all add: cleanup_local_files_def io_defs path_exists_def remove_file_def rmtree_def
         record_event_def)
qed

theorem cleanup_failure_never_changes_response_witness:
  "fst (cleanup_local_files failed_cleanup_env ''/tmp/uploads/track.wav'' ''/tmp/output/abc'' staged_world) = Inr ()
   \<and> fst (invocations failed_cleanup_env (Inr sample_data) initial_world) =
     Inr (JObj [(''status'', JStr ''success''),
                (''session_id'', JStr ''abc''),
                (''output_files'', JArr
                   [JObj [(''filename'', JStr ''vocals.wav''),
                          (''s3_uri'', JStr ''s3://out-bucket/stems/abc/vocals.wav'')],
                    JObj [(''filename'', JStr ''no_vocals.wav''),
                          (''s3_uri'', JStr ''s3://out-bucket/stems/abc/no_vocals.wav'')]])], 200)
   \<and> console (snd (cleanup_local_files failed_cleanup_env ''/tmp/uploads/track.wav'' ''/tmp/output/abc''
                      staged_world)) = [''Cleanup failed: Permission denied'']
   \<and> console (snd (cleanup_local_files failed_rmtree_env ''/tmp/uploads/track.wav'' ''/tmp/output/abc''
                      staged_world)) = [''Cleanup failed: Directory not empty'']"
proof -
  have e1: "failed_cleanup_env =
      sample_env\<lparr>os_remove := (\<lambda>path. Some (LibraryError ''PermissionError'' ''Permission denied'')),
                 shutil_rmtree := shutil_rmtree sample_env\<rparr>"
    by (simp add: failed_cleanup_env_def)
  have h3: "disk staged_world ''/tmp/uploads/track.wav''
      \<and> os_remove failed_cleanup_env ''/tmp/uploads/track.wav''
          = Some (LibraryError ''PermissionError'' ''Permission denied'')"
    by (simp add: staged_world_def failed_cleanup_env_def)
  have h4: "(disk staged_world ''/tmp/uploads/track.wav'' \<longrightarrow>
              os_remove failed_rmtree_env ''/tmp/uploads/track.wav'' = None)
      \<and> disk staged_world ''/tmp/output/abc'' \<and> ''/tmp/output/abc'' \<noteq> ''/tmp/uploads/track.wav''
      \<and> shutil_rmtree failed_rmtree_env ''/tmp/output/abc''
          = Some (LibraryError ''OSError'' ''Directory not empty'')"
    by (simp add: staged_world_def failed_rmtree_env_def sample_env_def)
  have c0: "console staged_world = []" by (simp add: staged_world_def)
  from cleanup_failure_never_changes_response
    [where env = failed_cleanup_env and input_path = "''/tmp/uploads/track.wav''"
       and output_path = "''/tmp/output/abc''" and w = staged_world
       and e = "LibraryError ''PermissionError'' ''Permission denied''"]
    h3
  have a: "fst (cleanup_local_files failed_cleanup_env ''/tmp/uploads/track.wav'' ''/tmp/output/abc'' staged_world) = Inr ()"
    and b: "console (snd (cleanup_local_files failed_cleanup_env ''/tmp/uploads/track.wav'' ''/tmp/output/abc''
                      staged_world)) = [''Cleanup failed: Permission denied'']"
    by (simp_all add: c0)
  from cleanup_failure_never_changes_response
    [where env = sample_env and w = initial_world and request_data = "Inr sample_data"
       and r = "\<lambda>path. Some (LibraryError ''PermissionError'' ''Permission denied'')"
       and t = "shutil_rmtree sample_env"]
  have c: "fst (invocations failed_cleanup_env (Inr sample_data) initial_world) =
           fst (invocations sample_env (Inr sample_data) initial_world)"
    unfolding e1 by blast
  from cleanup_failure_never_changes_response
    [where env = failed_rmtree_env and input_path = "''/tmp/uploads/track.wav''"
       and output_path = "''/tmp/output/abc''" and w = staged_world
       and e = "LibraryError ''OSError'' ''Directory not empty''"]
    h4
  have d: "console (snd (cleanup_local_files failed_rmtree_env ''/tmp/uploads/track.wav'' ''/tmp/output/abc''
                      staged_world)) = [''Cleanup failed: Directory not empty'']"
    by (simp add: c0)
  from a b c d sample_success show ?thesis by simp
qed

end
